theory Spec2Isabelle
  imports Main "HOL-Library.Sublist"
begin

section \<open>Data model (types.ts)\<close>

text \<open>
  JavaScript strings are modelled as \<open>string\<close>. A field that the source may leave
  \<open>undefined\<close> or \<open>null\<close> is an \<open>option\<close>. The numbers of the form are the results
  of \<open>parseInt\<close>, hence integers.
\<close>

record ImageFile =
  data :: string
  mimeType :: string

record FormState =
  productImage :: "ImageFile option"
  modelImage :: "ImageFile option"
  productDescription :: string
  numberOfImages :: int
  delay :: int
  style :: string
  aspectRatio :: string

datatype Status = loading | success | error

datatype VideoStatus = v_idle | v_loading | v_success | v_error

text \<open>
  \<open>ImageResult\<close>: the source's field \<open>id\<close> is \<open>imgId\<close>, its \<open>style\<close> and
  \<open>aspectRatio\<close> are \<open>imgStyle\<close> and \<open>imgAspectRatio\<close>, its \<open>status\<close> is
  \<open>photoStatus\<close> and its \<open>error\<close> is \<open>photoError\<close>; the other names are the source's.
\<close>

record ImageResult =
  imgId :: string
  src :: string
  prompt :: string
  imgStyle :: string
  imgAspectRatio :: string
  photoStatus :: Status
  photoError :: "string option"
  videoSrc :: "string option"
  videoStatus :: "VideoStatus option"
  videoError :: "string option"

record HistoryEntry =
  entryId :: nat
  date :: string
  entryFormState :: FormState
  entryImages :: "ImageResult list"

section \<open>Prompt building (geminiService.ts, constructPrompt)\<close>

text \<open>
  The source starts from the preamble and appends to \<open>textPrompt\<close> with \<open>+=\<close>, in five
  steps; \<open>if (productDescription)\<close> is JavaScript truthiness of a string: non-empty.
  The \<open>switch\<close> on the style is the chain of comparisons below, in the source's order.
\<close>

definition constructPrompt :: "FormState \<Rightarrow> string \<Rightarrow> string" where
  "constructPrompt fs pose =
    (let t0 = ''Create a new hyper-realistic 4K commercial photoshoot image.'';
         t1 = (if productDescription fs \<noteq> []
               then t0 @ '' The product is: \"'' @ productDescription fs @ ''\".''
               else t0);
         t2 = (if modelImage fs \<noteq> None \<and> productImage fs \<noteq> None
               then t1 @ '' Featuring the attached model posing with the attached product.''
               else if modelImage fs \<noteq> None
               then t1 @ '' Featuring the attached model in a commercial setting.''
               else if productImage fs \<noteq> None
               then t1 @ '' Featuring a fashion model posing with the attached product.''
               else t1 @ '' Featuring a fashion model posing with a generic commercial product.'');
         t3 = t2 @ '' The model's pose is: \"'' @ pose @ ''\".'';
         t4 = t3 @ '' The image must have a '' @ aspectRatio fs @ '' aspect ratio.''
     in if style fs = ''e-commerce''
        then t4 @ '' The overall style should be photorealistic, clean, and professional. The background must be a completely plain, solid white background (#FFFFFF) suitable for an e-commerce product listing. The lighting should be bright and even, minimizing shadows. High-end commercial photography, sharp focus on the product and model.''
        else if style fs = ''studio-bokeh''
        then t4 @ '' The style is photorealistic. The background should be a clean studio setting with a soft, out-of-focus bokeh effect, creating a sense of depth. The lighting should be professional and flattering.''
        else if style fs = ''cinematic''
        then t4 @ '' The style should be cinematic, with dramatic, high-contrast lighting (chiaroscuro). The background should be dark and moody, suggesting a scene from a film.''
        else if style fs = ''high-fashion''
        then t4 @ '' The style should be high-fashion and avant-garde. The background must be an abstract, geometric pattern with bold colors and shapes.''
        else if style fs = ''lifestyle''
        then t4 @ '' Create a lifestyle scene with the model in a natural, candid pose. The setting should be outdoors with beautiful, warm, natural light (golden hour).''
        else if style fs = ''vintage''
        then t4 @ '' The style should be vintage, reminiscent of old film photography. Apply a sepia tone, add subtle film grain, and use soft, nostalgic lighting.''
        else if style fs = ''minimalist''
        then t4 @ '' The style must be minimalist and clean. The background should be a simple, neutral-colored studio setting with even, soft lighting.''
        else if style fs = ''dramatic''
        then t4 @ '' The style should be dramatic and theatrical. Use a single, hard light source to create deep shadows and a strong focal point. The background should be dark or black.''
        else if style fs = ''monochrome''
        then t4 @ '' The image must be in black and white (monochrome). The background should be a simple studio setting, focusing on texture, form, and light.''
        else t4 @ '' The overall style should be '' @ style fs @ ''. The background should be a clean studio setting with professional lighting. High-end commercial photography, sharp focus.'')"

subsection \<open>The prompt as the specification describes it\<close>

text \<open>
  The specification's reading of the prompt builder: six pieces, concatenated. These
  definitions follow the specification's words and are compared with \<open>constructPrompt\<close>.
\<close>

definition spec_preamble :: string where
  "spec_preamble = ''Create a new hyper-realistic 4K commercial photoshoot image.''"

definition spec_description :: "string \<Rightarrow> string" where
  "spec_description d = (if d = [] then [] else '' The product is: \"'' @ d @ ''\".'')"

fun spec_reference :: "bool \<Rightarrow> bool \<Rightarrow> string" where
  "spec_reference True True = '' Featuring the attached model posing with the attached product.''"
| "spec_reference False True = '' Featuring the attached model in a commercial setting.''"
| "spec_reference True False = '' Featuring a fashion model posing with the attached product.''"
| "spec_reference False False = '' Featuring a fashion model posing with a generic commercial product.''"

definition spec_pose :: "string \<Rightarrow> string" where
  "spec_pose p = '' The model's pose is: \"'' @ p @ ''\".''"

definition spec_aspect :: "string \<Rightarrow> string" where
  "spec_aspect a = '' The image must have a '' @ a @ '' aspect ratio.''"

definition spec_styles :: "(string \<times> string) list" where
  "spec_styles =
    [(''e-commerce'', '' The overall style should be photorealistic, clean, and professional. The background must be a completely plain, solid white background (#FFFFFF) suitable for an e-commerce product listing. The lighting should be bright and even, minimizing shadows. High-end commercial photography, sharp focus on the product and model.''),
     (''studio-bokeh'', '' The style is photorealistic. The background should be a clean studio setting with a soft, out-of-focus bokeh effect, creating a sense of depth. The lighting should be professional and flattering.''),
     (''cinematic'', '' The style should be cinematic, with dramatic, high-contrast lighting (chiaroscuro). The background should be dark and moody, suggesting a scene from a film.''),
     (''high-fashion'', '' The style should be high-fashion and avant-garde. The background must be an abstract, geometric pattern with bold colors and shapes.''),
     (''lifestyle'', '' Create a lifestyle scene with the model in a natural, candid pose. The setting should be outdoors with beautiful, warm, natural light (golden hour).''),
     (''vintage'', '' The style should be vintage, reminiscent of old film photography. Apply a sepia tone, add subtle film grain, and use soft, nostalgic lighting.''),
     (''minimalist'', '' The style must be minimalist and clean. The background should be a simple, neutral-colored studio setting with even, soft lighting.''),
     (''dramatic'', '' The style should be dramatic and theatrical. Use a single, hard light source to create deep shadows and a strong focal point. The background should be dark or black.''),
     (''monochrome'', '' The image must be in black and white (monochrome). The background should be a simple studio setting, focusing on texture, form, and light.'')]"

definition spec_generic_style :: "string \<Rightarrow> string" where
  "spec_generic_style s = '' The overall style should be '' @ s @ ''. The background should be a clean studio setting with professional lighting. High-end commercial photography, sharp focus.''"

definition spec_style :: "string \<Rightarrow> string" where
  "spec_style s = (case map_of spec_styles s of Some clause \<Rightarrow> clause | None \<Rightarrow> spec_generic_style s)"

definition spec_prompt :: "FormState \<Rightarrow> string \<Rightarrow> string" where
  "spec_prompt fs pose =
     spec_preamble
     @ spec_description (productDescription fs)
     @ spec_reference (productImage fs \<noteq> None) (modelImage fs \<noteq> None)
     @ spec_pose pose
     @ spec_aspect (aspectRatio fs)
     @ spec_style (style fs)"

section \<open>JavaScript library functions used by the source\<close>

text \<open>\<open>xs.map((x, i) => f(i, x))\<close>: the map that also passes the index.\<close>

fun mapi_from :: "nat \<Rightarrow> (nat \<Rightarrow> 'a \<Rightarrow> 'b) \<Rightarrow> 'a list \<Rightarrow> 'b list" where
  "mapi_from i f [] = []"
| "mapi_from i f (x # xs) = f i x # mapi_from (Suc i) f xs"

definition mapi :: "(nat \<Rightarrow> 'a \<Rightarrow> 'b) \<Rightarrow> 'a list \<Rightarrow> 'b list" where
  "mapi f xs = mapi_from 0 f xs"

text \<open>\<open>s.includes(pat)\<close> (here \<open>includes_str\<close>) and \<open>s.startsWith(pat)\<close>.\<close>

fun includes_str :: "string \<Rightarrow> string \<Rightarrow> bool" where
  "includes_str [] pat = (pat = [])"
| "includes_str (c # cs) pat = (prefix pat (c # cs) \<or> includes_str cs pat)"

definition startsWith :: "string \<Rightarrow> string \<Rightarrow> bool" where
  "startsWith s pat = prefix pat s"

text \<open>\<open>s.replace(pat, rep)\<close> with a string pattern: the first occurrence only.\<close>

fun replaceFirst :: "string \<Rightarrow> string \<Rightarrow> string \<Rightarrow> string" where
  "replaceFirst pat rep [] = (if pat = [] then rep else [])"
| "replaceFirst pat rep (c # cs) =
     (if prefix pat (c # cs) then rep @ drop (length pat) (c # cs)
      else c # replaceFirst pat rep cs)"

text \<open>\<open>xs.join(sep)\<close>.\<close>

fun join :: "string \<Rightarrow> string list \<Rightarrow> string" where
  "join sep [] = []"
| "join sep [x] = x"
| "join sep (x # y # ys) = x @ sep @ join sep (y # ys)"

text \<open>
  Numbers in template literals: \<open>${n}\<close> prints an integer in decimal, with a minus
  sign when it is negative.
\<close>

definition digitChar :: "nat \<Rightarrow> char" where
  "digitChar d = char_of (d + 48)"

function decimal :: "nat \<Rightarrow> string" where
  "decimal n = (if n div 10 = 0 then [digitChar n] else decimal (n div 10) @ [digitChar (n mod 10)])"
  by pat_completeness auto
termination
  by (relation "measure id") auto

definition numberToString :: "int \<Rightarrow> string" where
  "numberToString i = (if i < 0 then CHR ''-'' # decimal (nat (- i)) else decimal (nat i))"

section \<open>The remote generation gateway (geminiService.ts)\<close>

text \<open>
  A promise that rejects, or a call that throws, with \<open>new Error(m)\<close> is \<open>Inl m\<close>; a
  value \<open>v\<close> is \<open>Inr v\<close>.

  A \<open>Part\<close> of the SDK has an optional \<open>inlineData\<close> and an optional \<open>text\<close> (here
  \<open>partText\<close>). In the answers of the model, a string that the source only tests for
  truthiness before it uses it (\<open>blockReason\<close>, \<open>finishReason\<close>, \<open>probability\<close>,
  \<open>inlineData.data\<close>, \<open>text\<close>) is a \<open>string\<close> whose empty value stands for every falsy
  value; an absent list of safety ratings is the empty list, which the source treats
  alike. \<open>candidates\<close> is the list of candidates, empty when absent, and \<open>contentParts\<close>
  is \<open>candidate.content?.parts || []\<close>.
\<close>

record Part =
  inlineData :: "ImageFile option"
  partText :: "string option"

record SafetyRating =
  category :: string
  probability :: string

record Candidate =
  finishReason :: string
  safetyRatings :: "SafetyRating list"
  contentParts :: "Part list"

record GenerateContentResponse =
  blockReason :: string
  feedbackRatings :: "SafetyRating list"
  candidates :: "Candidate list"

text \<open>
  What \<open>generatePoses\<close> gets from the model and \<open>JSON.parse\<close>: the call or the parse
  throws, or the parsed object has no array \<open>poses\<close>, or it has one.
\<close>

datatype PosesReply = PosesThrew string | NoPosesArray | PosesArray "string list"

text \<open>
  A video operation: \<open>opDone\<close> is \<open>operation.done\<close> and \<open>videoUri\<close> is
  \<open>operation.response?.generatedVideos?.[0]?.video?.uri\<close>, empty when falsy.
  A \<open>fetch\<close> response: \<open>ok\<close>, \<open>statusText\<close>, and what \<open>blobToBase64\<close> makes of its
  body (the reader may fail).
\<close>

record VideoOperation =
  opDone :: bool
  videoUri :: string

record FetchResponse =
  ok :: bool
  statusText :: string
  bodyBase64 :: "string + string"

text \<open>
  The world outside the program. \<open>storedKey\<close> is what \<open>localStorage.getItem\<close> returns
  for the key (\<open>None\<close> when there is none or when reading throws), \<open>envKey\<close> is
  \<open>process.env.API_KEY\<close>. \<open>imageReply w n parts\<close> is the model's answer to the \<open>n\<close>-th
  image request of a run, \<open>pollReply w n\<close> the answer to the \<open>n\<close>-th poll of a video
  operation. \<open>matchDataUrl\<close> is \<open>String.prototype.match\<close> with the regular expression
  \<open>/data:(image\/.+);base64,(.+)/\<close>: the two groups, or \<open>None\<close>. \<open>dateNow\<close> and
  \<open>isoNow\<close> are \<open>Date.now()\<close> and \<open>new Date().toISOString()\<close>.
\<close>

record World =
  storedKey :: "string option"
  envKey :: "string option"
  posesReply :: "Part list \<Rightarrow> PosesReply"
  imageReply :: "nat \<Rightarrow> Part list \<Rightarrow> string + GenerateContentResponse"
  matchDataUrl :: "string \<Rightarrow> (string \<times> string) option"
  submitReply :: "string \<Rightarrow> string \<Rightarrow> string \<Rightarrow> string + VideoOperation"
  pollReply :: "nat \<Rightarrow> string + VideoOperation"
  fetchReply :: "string \<Rightarrow> string + FetchResponse"
  dateNow :: nat
  isoNow :: string

text \<open>
  The calls that leave the program, in the order they are made: a log kept beside the
  state, so that a theorem can say which requests were sent.
\<close>

datatype Event =
    PlanRequest "Part list"
  | ImageRequest "Part list"
  | Sleep int
  | VideoSubmit string string string
  | VideoPoll
  | VideoFetch string

definition getApiKey :: "World \<Rightarrow> string option" where
  "getApiKey w =
     (case storedKey w of
        Some k \<Rightarrow> if k \<noteq> [] then Some k
                  else (case envKey w of Some e \<Rightarrow> if e \<noteq> [] then Some e else None | None \<Rightarrow> None)
      | None \<Rightarrow> (case envKey w of Some e \<Rightarrow> if e \<noteq> [] then Some e else None | None \<Rightarrow> None))"

text \<open>
  \<open>getAiClient\<close> returns the cached client when its key is the current one (then the
  key is not null, since a client is only ever cached together with its non-null key),
  throws when there is no key, and makes a client otherwise. The client itself is
  opaque: the model returns the key it holds.
\<close>

definition getAiClient :: "World \<Rightarrow> string + string" where
  "getAiClient w =
     (case getApiKey w of
        None \<Rightarrow> Inl ''API key not found. Please provide your key to use the application.''
      | Some k \<Rightarrow> if k = [] then Inl ''API key not found. Please provide your key to use the application.''
                  else Inr k)"

subsection \<open>generatePoses\<close>

definition inlinePart :: "ImageFile \<Rightarrow> Part" where
  "inlinePart img = \<lparr>inlineData = Some \<lparr>data = data img, mimeType = mimeType img\<rparr>, partText = None\<rparr>"

definition textPart :: "string \<Rightarrow> Part" where
  "textPart t = \<lparr>inlineData = None, partText = Some t\<rparr>"

text \<open>The template literal of the planning prompt; its lines end with a line feed.\<close>

definition posesPrompt :: "string \<Rightarrow> int \<Rightarrow> string" where
  "posesPrompt description numberOfPhotos =
     ''You are a creative director for a commercial photoshoot. '' @ [CHR 0x0A]
     @ ''Based on the provided product description and image, generate a list of ''
     @ numberToString numberOfPhotos
     @ '' distinct, commercially appealing poses for a model.'' @ [CHR 0x0A]
     @ ''Product Description: \"'' @ description @ ''\"'' @ [CHR 0x0A]
     @ ''The poses should be creative, varied, and suitable for advertising.'' @ [CHR 0x0A]
     @ ''Return the list in a JSON object with a single key \"poses\" which contains an array of strings. For example: {\"poses\": [\"posing confidently with the product\", \"a dynamic action shot using the product\"]}''"

text \<open>
  \<open>generatePoses\<close>: the client is fetched before the \<open>try\<close>; inside it, an answer
  without an array \<open>poses\<close> throws, and the \<open>catch\<close> wraps every message.
\<close>

definition generatePoses :: "World \<Rightarrow> string \<Rightarrow> ImageFile option \<Rightarrow> int \<Rightarrow> (string + string list) \<times> Event list" where
  "generatePoses w description pimage numberOfPhotos =
     (case getAiClient w of
        Inl m \<Rightarrow> (Inl m, [])
      | Inr client \<Rightarrow>
          (let parts0 = (case pimage of Some img \<Rightarrow> [inlinePart img] | None \<Rightarrow> []);
               textPrompt = posesPrompt description numberOfPhotos;
               parts = parts0 @ [textPart textPrompt]
           in (case posesReply w parts of
                 PosesArray poses \<Rightarrow> Inr poses
               | NoPosesArray \<Rightarrow>
                   Inl (''Failed to generate poses: '' @ ''Could not parse poses from the AI response. Unexpected format.'')
               | PosesThrew m \<Rightarrow> Inl (''Failed to generate poses: '' @ m),
               [PlanRequest parts])))"

subsection \<open>generateImage\<close>

definition formatSafetyRatings :: "SafetyRating list \<Rightarrow> string" where
  "formatSafetyRatings ratings =
     (if ratings = [] then []
      else (let problematicRatings =
                  filter (\<lambda>r. probability r \<noteq> [] \<and> probability r \<noteq> ''NEGLIGIBLE'' \<and> probability r \<noteq> ''LOW'') ratings
            in if problematicRatings = [] then []
               else ''Details: '' @ join '', ''
                      (map (\<lambda>r. replaceFirst ''HARM_CATEGORY_'' [] (category r) @ '' ('' @ probability r @ '')'')
                           problematicRatings)))"

text \<open>
  The \<open>for\<close> loop over the parts returns the data URL of the first part with inline
  data; \<open>parts.find(p => p.text)\<close> is the first part with a text.
\<close>

fun firstInlineImage :: "Part list \<Rightarrow> string option" where
  "firstInlineImage [] = None"
| "firstInlineImage (part # parts) =
     (case inlineData part of
        Some d \<Rightarrow> if data d \<noteq> [] then Some (''data:'' @ mimeType d @ '';base64,'' @ data d)
                  else firstInlineImage parts
      | None \<Rightarrow> firstInlineImage parts)"

fun firstText :: "Part list \<Rightarrow> string option" where
  "firstText [] = None"
| "firstText (p # ps) =
     (case partText p of
        Some t \<Rightarrow> if t \<noteq> [] then Some t else firstText ps
      | None \<Rightarrow> firstText ps)"

text \<open>The body of the \<open>try\<close> block, after the model has answered.\<close>

definition generateImage_try :: "string + GenerateContentResponse \<Rightarrow> string + string" where
  "generateImage_try reply =
     (case reply of
        Inl m \<Rightarrow> Inl m
      | Inr response \<Rightarrow>
          if blockReason response \<noteq> []
          then Inl (''Request was blocked. Reason: '' @ blockReason response @ ''. ''
                    @ formatSafetyRatings (feedbackRatings response))
          else (case candidates response of
                  [] \<Rightarrow> Inl ''Generation failed: No response candidate was returned from the model.''
                | candidate # _ \<Rightarrow>
                    if finishReason candidate \<noteq> [] \<and> finishReason candidate \<noteq> ''STOP''
                       \<and> finishReason candidate \<noteq> ''MAX_TOKENS''
                    then (let safetyDetails = formatSafetyRatings (safetyRatings candidate)
                          in if finishReason candidate = ''SAFETY''
                             then Inl (''Image blocked due to safety filters. '' @ safetyDetails @ '' Please adjust your prompt.'')
                             else if finishReason candidate = ''IMAGE_SAFETY''
                             then Inl (''Image blocked for safety reasons. '' @ safetyDetails @ '' Please try a different prompt.'')
                             else Inl (''Generation failed. Reason: '' @ finishReason candidate @ ''. '' @ safetyDetails))
                    else (case firstInlineImage (contentParts candidate) of
                            Some url \<Rightarrow> Inr url
                          | None \<Rightarrow>
                              (case firstText (contentParts candidate) of
                                 Some t \<Rightarrow> Inl (''Model returned a text response instead of an image: \"'' @ t @ ''\"'')
                               | None \<Rightarrow> Inl ''No image was generated in the response.''))))"

text \<open>The \<open>catch\<close> block: an error of the function's own is thrown again, another is wrapped.\<close>

definition isCustomError :: "string \<Rightarrow> bool" where
  "isCustomError m =
     list_ex (\<lambda>p. startsWith m p)
       [''Request was blocked'', ''Image blocked'', ''Generation failed'',
        ''Model returned a text response'', ''No image was generated'']"

definition generateImage_catch :: "string + string \<Rightarrow> string + string" where
  "generateImage_catch r =
     (case r of
        Inr url \<Rightarrow> Inr url
      | Inl m \<Rightarrow> if isCustomError m then Inl m else Inl (''Failed to generate image: '' @ m))"

text \<open>
  \<open>generateImage\<close>: the client is fetched before the \<open>try\<close>, so a missing key is thrown
  as it is and no request is sent. \<open>n\<close> counts the image requests of the run.
\<close>

definition generateImage :: "World \<Rightarrow> nat \<Rightarrow> Part list \<Rightarrow> (string + string) \<times> Event list" where
  "generateImage w n parts =
     (case getAiClient w of
        Inl m \<Rightarrow> (Inl m, [])
      | Inr client \<Rightarrow> (generateImage_catch (generateImage_try (imageReply w n parts)), [ImageRequest parts]))"

subsection \<open>regeneratePhoto and generatePhotos\<close>

text \<open>The parts both functions build: the product image, the model image, the prompt.\<close>

definition photoParts :: "FormState \<Rightarrow> string \<Rightarrow> Part list" where
  "photoParts fs pose =
     (let parts1 = (case productImage fs of Some img \<Rightarrow> [inlinePart img] | None \<Rightarrow> []);
          parts2 = (case modelImage fs of Some img \<Rightarrow> parts1 @ [inlinePart img] | None \<Rightarrow> parts1);
          textPrompt = constructPrompt fs pose
      in parts2 @ [textPart textPrompt])"

definition regeneratePhoto :: "World \<Rightarrow> FormState \<Rightarrow> string \<Rightarrow> (string + string) \<times> Event list" where
  "regeneratePhoto w fs pose = generateImage w 0 (photoParts fs pose)"

text \<open>
  One turn of the loop of \<open>generatePhotos\<close>: the request for the pose at \<open>index\<close>, the
  callback, and the pause before the next item. \<open>err.message || '...'\<close> replaces an
  empty message. The loop runs a turn only for an \<open>index\<close> below the number of poses,
  so \<open>poseTasks ! index\<close> is always an element of the list.
\<close>

definition generatePhotos_step ::
  "World \<Rightarrow> FormState \<Rightarrow> string list \<Rightarrow> (nat \<Rightarrow> string \<Rightarrow> 's \<Rightarrow> 's) \<Rightarrow> (nat \<Rightarrow> string \<Rightarrow> 's \<Rightarrow> 's)
    \<Rightarrow> nat \<Rightarrow> 's \<times> Event list \<Rightarrow> 's \<times> Event list" where
  "generatePhotos_step w fs poseTasks onSuccess onError index st =
     (let pose = poseTasks ! index;
          (r, ev) = generateImage w index (photoParts fs pose);
          s' = (case r of
                  Inr imageUrl \<Rightarrow> onSuccess index imageUrl (fst st)
                | Inl m \<Rightarrow> onError index (if m \<noteq> [] then m else ''An unknown error occurred.'') (fst st));
          pause = (if index < length poseTasks - 1 \<and> delay fs > 0 then [Sleep (delay fs * 1000)] else [])
      in (s', snd st @ ev @ pause))"

function generatePhotos_loop ::
  "World \<Rightarrow> FormState \<Rightarrow> string list \<Rightarrow> (nat \<Rightarrow> string \<Rightarrow> 's \<Rightarrow> 's) \<Rightarrow> (nat \<Rightarrow> string \<Rightarrow> 's \<Rightarrow> 's)
    \<Rightarrow> nat \<Rightarrow> 's \<times> Event list \<Rightarrow> 's \<times> Event list" where
  "generatePhotos_loop w fs poseTasks onSuccess onError index st =
     (if index < length poseTasks
      then generatePhotos_loop w fs poseTasks onSuccess onError (Suc index)
             (generatePhotos_step w fs poseTasks onSuccess onError index st)
      else st)"
  by pat_completeness auto
termination
  by (relation "measure (\<lambda>(w, fs, poseTasks, onSuccess, onError, index, st). length poseTasks - index)") auto

definition generatePhotos ::
  "World \<Rightarrow> FormState \<Rightarrow> string list \<Rightarrow> (nat \<Rightarrow> string \<Rightarrow> 's \<Rightarrow> 's) \<Rightarrow> (nat \<Rightarrow> string \<Rightarrow> 's \<Rightarrow> 's)
    \<Rightarrow> 's \<Rightarrow> 's \<times> Event list" where
  "generatePhotos w fs poseTasks onSuccess onError s =
     generatePhotos_loop w fs poseTasks onSuccess onError 0 (s, [])"

subsection \<open>generateVideoFromImage\<close>

text \<open>
  The polling loop has no bound in the source: it ends when the operation is done or a
  poll throws. Where it never ends the model's value is \<open>None\<close>.
\<close>

partial_function (option) pollVideo ::
  "World \<Rightarrow> nat \<Rightarrow> VideoOperation \<Rightarrow> Event list \<Rightarrow> ((string + VideoOperation) \<times> Event list) option" where
  "pollVideo w n operation tr =
     (if opDone operation then Some (Inr operation, tr)
      else (case pollReply w n of
              Inl m \<Rightarrow> Some (Inl m, tr @ [Sleep 10000, VideoPoll])
            | Inr operation' \<Rightarrow> pollVideo w (Suc n) operation' (tr @ [Sleep 10000, VideoPoll])))"

declare pollVideo.simps [code]

definition downloadVideo :: "World \<Rightarrow> string \<Rightarrow> VideoOperation \<Rightarrow> (string + string) \<times> Event list" where
  "downloadVideo w apiKey operation =
     (if videoUri operation = [] then (Inl ''Video generation failed or did not return a valid URI.'', [])
      else (let downloadLink = videoUri operation
            in (case fetchReply w (downloadLink @ ''&key='' @ apiKey) of
                  Inl m \<Rightarrow> Inl m
                | Inr videoResponse \<Rightarrow>
                    if \<not> ok videoResponse
                    then Inl (''Failed to download video file: '' @ statusText videoResponse)
                    else bodyBase64 videoResponse,
                [VideoFetch (downloadLink @ ''&key='' @ apiKey)])))"

text \<open>
  The function up to the submission of the job: the client, the key, the data URL, the
  call of \<open>generateVideos\<close>. It gives the key and the operation to poll.
\<close>

definition submitVideo ::
  "World \<Rightarrow> string \<Rightarrow> string \<Rightarrow> (string + string \<times> VideoOperation) \<times> Event list" where
  "submitVideo w base64ImageDataUrl ratio =
     (case getAiClient w of
        Inl m \<Rightarrow> (Inl m, [])
      | Inr client \<Rightarrow>
          (case getApiKey w of
             None \<Rightarrow> (Inl ''API key not found.'', [])
           | Some apiKey \<Rightarrow>
               (case matchDataUrl w base64ImageDataUrl of
                  None \<Rightarrow> (Inl ''Invalid base64 image data URL'', [])
                | Some (mime, base64Data) \<Rightarrow>
                    (case submitReply w base64Data mime ratio of
                       Inl m \<Rightarrow> (Inl m, [VideoSubmit base64Data mime ratio])
                     | Inr operation \<Rightarrow> (Inr (apiKey, operation), [VideoSubmit base64Data mime ratio])))))"

definition generateVideoFromImage ::
  "World \<Rightarrow> string \<Rightarrow> string \<Rightarrow> ((string + string) \<times> Event list) option" where
  "generateVideoFromImage w base64ImageDataUrl ratio =
     (case submitVideo w base64ImageDataUrl ratio of
        (Inl m, ev) \<Rightarrow> Some (Inl m, ev)
      | (Inr (apiKey, operation0), ev) \<Rightarrow>
          (case pollVideo w 0 operation0 ev of
             None \<Rightarrow> None
           | Some (Inl m, tr) \<Rightarrow> Some (Inl m, tr)
           | Some (Inr operation, tr) \<Rightarrow>
               (let (r, ev') = downloadVideo w apiKey operation
                in Some (r, tr @ ev'))))"

section \<open>The history store (useHistory)\<close>

text \<open>
  \<open>addToHistory\<close> puts the new entry in front and \<open>saveHistory\<close> sorts the array in
  place by \<open>id\<close>, descending (\<open>Array.prototype.sort\<close> is stable, as \<open>sort_key\<close>
  is). The sorted array is the new history, whether or not local storage accepts it.
\<close>

definition addToHistory :: "World \<Rightarrow> FormState \<Rightarrow> ImageResult list \<Rightarrow> HistoryEntry list \<Rightarrow> HistoryEntry list" where
  "addToHistory w fs imgs prevHistory =
     (let newEntry = \<lparr>entryId = dateNow w, date = isoNow w, entryFormState = fs, entryImages = imgs\<rparr>;
          updatedHistory = newEntry # prevHistory
      in sort_key (\<lambda>e. - int (entryId e)) updatedHistory)"

section \<open>The application (App.tsx)\<close>

text \<open>
  The state of the component: the values of its \<open>useState\<close> hooks that the handlers
  below read or write (the source's \<open>error\<close> is \<open>appError\<close>), the history of
  \<open>useHistory\<close>, and the ref \<open>prevIsLoading\<close>.
\<close>

record ViewingVideoState =
  viewVideoSrc :: string
  viewImageSrc :: string

record App =
  formState :: FormState
  images :: "ImageResult list"
  isLoading :: bool
  appError :: "string option"
  lastUsedFormState :: "FormState option"
  viewingVideo :: "ViewingVideoState option"
  isApiKeyModalOpen :: bool
  history :: "HistoryEntry list"
  prevIsLoading :: bool

definition initialApp :: "World \<Rightarrow> HistoryEntry list \<Rightarrow> App" where
  "initialApp w stored =
     \<lparr>formState = \<lparr>productImage = None, modelImage = None, productDescription = [],
                    numberOfImages = 3, delay = 1, style = ''e-commerce'', aspectRatio = ''9:16''\<rparr>,
      images = [], isLoading = False, appError = None, lastUsedFormState = None,
      viewingVideo = None, isApiKeyModalOpen = (getApiKey w = None), history = stored,
      prevIsLoading = False\<rparr>"

text \<open>
  The effect that archives a finished job. React runs it after a render in which one of
  its dependencies changed; where none changed, \<open>prevIsLoading\<close> already equals
  \<open>isLoading\<close> and running it changes nothing, so the model runs it after every update
  of the state.
\<close>

definition historyEffect :: "World \<Rightarrow> App \<Rightarrow> App" where
  "historyEffect w s =
     (let s' = (case lastUsedFormState s of
                  Some lfs \<Rightarrow>
                    if prevIsLoading s \<and> \<not> isLoading s
                    then s\<lparr>history := addToHistory w lfs (images s) (history s)\<rparr>
                    else s
                | None \<Rightarrow> s)
      in s'\<lparr>prevIsLoading := isLoading s\<rparr>)"

subsection \<open>What the handlers write into one item\<close>

text \<open>The object spreads \<open>{ ...img, ... }\<close> of the handlers, each on one item.\<close>

definition photoSucceeded :: "string \<Rightarrow> ImageResult \<Rightarrow> ImageResult" where
  "photoSucceeded imageUrl img = img\<lparr>src := imageUrl, photoStatus := success\<rparr>"

definition photoFailed :: "string \<Rightarrow> ImageResult \<Rightarrow> ImageResult" where
  "photoFailed m img = img\<lparr>photoStatus := error, photoError := Some m\<rparr>"

definition regenerateLoading :: "string \<Rightarrow> string \<Rightarrow> ImageResult \<Rightarrow> ImageResult" where
  "regenerateLoading newStyle newPrompt img =
     img\<lparr>photoStatus := loading, imgStyle := newStyle, prompt := newPrompt,
         videoStatus := Some v_idle, videoSrc := None, videoError := None\<rparr>"

definition videoLoading :: "ImageResult \<Rightarrow> ImageResult" where
  "videoLoading img = img\<lparr>videoStatus := Some v_loading, videoError := None\<rparr>"

definition videoSucceeded :: "string \<Rightarrow> ImageResult \<Rightarrow> ImageResult" where
  "videoSucceeded v img = img\<lparr>videoStatus := Some v_success, videoSrc := Some v\<rparr>"

definition videoFailed :: "string \<Rightarrow> ImageResult \<Rightarrow> ImageResult" where
  "videoFailed m img = img\<lparr>videoStatus := Some v_error, videoError := Some m\<rparr>"

text \<open>\<open>prev.map(img => img.id === imageId ? f(img) : img)\<close>.\<close>

definition updateById :: "string \<Rightarrow> (ImageResult \<Rightarrow> ImageResult) \<Rightarrow> ImageResult list \<Rightarrow> ImageResult list" where
  "updateById imageId f imgs = map (\<lambda>img. if imgId img = imageId then f img else img) imgs"

text \<open>\<open>prevImages.map((img, i) => i === index ? f(img) : img)\<close>.\<close>

definition updateByIndex :: "nat \<Rightarrow> (ImageResult \<Rightarrow> ImageResult) \<Rightarrow> ImageResult list \<Rightarrow> ImageResult list" where
  "updateByIndex index f imgs = mapi (\<lambda>i img. if i = index then f img else img) imgs"

subsection \<open>handleGenerate\<close>

definition initialImages :: "World \<Rightarrow> FormState \<Rightarrow> string list \<Rightarrow> ImageResult list" where
  "initialImages w fs poseTasks =
     mapi (\<lambda>index pose.
             \<lparr>imgId = decimal (dateNow w) @ ''-'' @ decimal index,
              src = [], prompt = pose, imgStyle = style fs, imgAspectRatio = aspectRatio fs,
              photoStatus = loading, photoError = None,
              videoSrc = None, videoStatus = Some v_idle, videoError = None\<rparr>)
          poseTasks"

definition onPhotoSuccess :: "World \<Rightarrow> nat \<Rightarrow> string \<Rightarrow> App \<Rightarrow> App" where
  "onPhotoSuccess w index imageUrl s =
     historyEffect w (s\<lparr>images := updateByIndex index (photoSucceeded imageUrl) (images s)\<rparr>)"

definition onPhotoError :: "World \<Rightarrow> nat \<Rightarrow> string \<Rightarrow> App \<Rightarrow> App" where
  "onPhotoError w index errorMessage s =
     historyEffect w (s\<lparr>images := updateByIndex index (photoFailed errorMessage) (images s)\<rparr>)"

text \<open>The \<open>catch\<close> block of \<open>handleGenerate\<close>, and its \<open>finally\<close>.\<close>

definition handleGenerate_catch :: "string \<Rightarrow> App \<Rightarrow> App" where
  "handleGenerate_catch m s =
     (let s1 = (if includes_str m ''API key not found'' then s\<lparr>isApiKeyModalOpen := True\<rparr> else s);
          s2 = s1\<lparr>appError := Some (''An unexpected error occurred: '' @ m)\<rparr>
      in s2\<lparr>images := (if images s2 \<noteq> []
                         then map (photoFailed ''Generation failed'') (images s2)
                         else [])\<rparr>)"

definition handleGenerate_finally :: "World \<Rightarrow> App \<Rightarrow> App" where
  "handleGenerate_finally w s = historyEffect w (s\<lparr>isLoading := False\<rparr>)"

text \<open>
  \<open>handleGenerate\<close>: the state is updated and rendered before the first \<open>await\<close>, after
  planning, after every callback and at the end. \<open>generatePhotos\<close> catches every error
  of an item, so the \<open>catch\<close> block runs only for a planning failure.
\<close>

definition handleGenerate :: "World \<Rightarrow> App \<Rightarrow> App \<times> Event list" where
  "handleGenerate w s0 =
     (let fs = formState s0;
          s1 = historyEffect w
                 (s0\<lparr>isLoading := True, appError := None, images := [], lastUsedFormState := Some fs\<rparr>);
          (planned, ev) = generatePoses w (productDescription fs) (productImage fs) (numberOfImages fs)
      in case planned of
           Inl m \<Rightarrow> (handleGenerate_finally w (handleGenerate_catch m s1), ev)
         | Inr poses \<Rightarrow>
             if poses = []
             then (handleGenerate_finally w
                     (handleGenerate_catch ''The AI failed to generate any poses. Try adjusting the description.'' s1),
                   ev)
             else (let s2 = historyEffect w (s1\<lparr>images := initialImages w fs poses\<rparr>);
                       (s3, tr) = generatePhotos w fs poses (onPhotoSuccess w) (onPhotoError w) s2
                   in (handleGenerate_finally w s3, ev @ tr)))"

subsection \<open>handleRegenerate\<close>

text \<open>
  The handler up to its \<open>await\<close> (\<open>handleRegenerate_start\<close>), and what it does with
  the outcome of \<open>regeneratePhoto\<close> (\<open>handleRegenerate_settle\<close>).
\<close>

definition handleRegenerate_start :: "World \<Rightarrow> string \<Rightarrow> string \<Rightarrow> string \<Rightarrow> App \<Rightarrow> App" where
  "handleRegenerate_start w imageId newStyle newPrompt s =
     historyEffect w (s\<lparr>images := updateById imageId (regenerateLoading newStyle newPrompt) (images s)\<rparr>)"

definition handleRegenerate_settle :: "World \<Rightarrow> string \<Rightarrow> string + string \<Rightarrow> App \<Rightarrow> App" where
  "handleRegenerate_settle w imageId r s =
     (case r of
        Inr imageUrl \<Rightarrow>
          historyEffect w (s\<lparr>images := updateById imageId (photoSucceeded imageUrl) (images s)\<rparr>)
      | Inl m \<Rightarrow>
          (let s1 = (if includes_str m ''API key not found'' then s\<lparr>isApiKeyModalOpen := True\<rparr> else s);
               errorMessage = ''Failed to regenerate image: '' @ m
           in historyEffect w
                (s1\<lparr>appError := Some errorMessage,
                    images := updateById imageId (photoFailed m) (images s1)\<rparr>)))"

definition handleRegenerate :: "World \<Rightarrow> string \<Rightarrow> string \<Rightarrow> string \<Rightarrow> App \<Rightarrow> App \<times> Event list" where
  "handleRegenerate w imageId newStyle newPrompt s =
     (case lastUsedFormState s of
        None \<Rightarrow> (historyEffect w (s\<lparr>appError := Some ''Cannot regenerate. Original form data not found.''\<rparr>), [])
      | Some lfs \<Rightarrow>
          (case find (\<lambda>img. imgId img = imageId) (images s) of
             None \<Rightarrow> (s, [])
           | Some imageToUpdate \<Rightarrow>
               if newStyle = imgStyle imageToUpdate \<and> newPrompt = prompt imageToUpdate then (s, [])
               else (let s1 = handleRegenerate_start w imageId newStyle newPrompt s;
                         newFormState = lfs\<lparr>style := newStyle\<rparr>;
                         (r, ev) = regeneratePhoto w newFormState newPrompt
                     in (handleRegenerate_settle w imageId r s1, ev))))"

subsection \<open>handleVideoAction\<close>

definition handleVideoAction_start :: "World \<Rightarrow> string \<Rightarrow> App \<Rightarrow> App" where
  "handleVideoAction_start w imageId s =
     historyEffect w (s\<lparr>images := updateById imageId videoLoading (images s), appError := None\<rparr>)"

definition handleVideoAction_settle :: "World \<Rightarrow> string \<Rightarrow> ImageResult \<Rightarrow> string + string \<Rightarrow> App \<Rightarrow> App" where
  "handleVideoAction_settle w imageId imageToUpdate r s =
     (case r of
        Inr v \<Rightarrow>
          historyEffect w
            (s\<lparr>images := updateById imageId (videoSucceeded v) (images s),
               viewingVideo := Some \<lparr>viewVideoSrc = v, viewImageSrc = src imageToUpdate\<rparr>\<rparr>)
      | Inl m \<Rightarrow>
          (let s1 = (if includes_str m ''API key not found'' then s\<lparr>isApiKeyModalOpen := True\<rparr> else s);
               errorMessage = ''Failed to generate video: '' @ m
           in historyEffect w
                (s1\<lparr>appError := Some errorMessage,
                    images := updateById imageId (videoFailed m) (images s1)\<rparr>)))"

text \<open>
  \<open>handleVideoAction\<close>. \<open>imageToUpdate.videoSrc\<close> in a condition is truthiness: present
  and not empty; \<open>the (videoSrc imageToUpdate)\<close> is read only in the branch where that
  test has succeeded. The result is \<open>None\<close> where the video never settles.
\<close>

definition handleVideoAction :: "World \<Rightarrow> string \<Rightarrow> string \<Rightarrow> App \<Rightarrow> (App \<times> Event list) option" where
  "handleVideoAction w imageId ratio s =
     (case find (\<lambda>img. imgId img = imageId) (images s) of
        None \<Rightarrow> Some (s, [])
      | Some imageToUpdate \<Rightarrow>
          if photoStatus imageToUpdate \<noteq> success then Some (s, [])
          else if videoStatus imageToUpdate = Some v_success
                  \<and> (case videoSrc imageToUpdate of Some v \<Rightarrow> v \<noteq> [] | None \<Rightarrow> False)
          then Some (historyEffect w
                       (s\<lparr>viewingVideo := Some \<lparr>viewVideoSrc = the (videoSrc imageToUpdate),
                                                 viewImageSrc = src imageToUpdate\<rparr>\<rparr>), [])
          else if videoStatus imageToUpdate = Some v_loading then Some (s, [])
          else (let s1 = handleVideoAction_start w imageId s
                in (case generateVideoFromImage w (src imageToUpdate) ratio of
                      None \<Rightarrow> None
                    | Some (r, ev) \<Rightarrow> Some (handleVideoAction_settle w imageId imageToUpdate r s1, ev))))"

section \<open>Notions used in the statements\<close>

text \<open>
  The terminal state that the loop of \<open>generatePhotos\<close> gives the item at \<open>index\<close>,
  through the callbacks of \<open>handleGenerate\<close>: it depends on the outcome of that item's
  own request only.
\<close>

definition settledItem :: "World \<Rightarrow> FormState \<Rightarrow> string list \<Rightarrow> nat \<Rightarrow> ImageResult \<Rightarrow> ImageResult" where
  "settledItem w fs poseTasks index img =
     (case fst (generateImage w index (photoParts fs (poseTasks ! index))) of
        Inr imageUrl \<Rightarrow> photoSucceeded imageUrl img
      | Inl m \<Rightarrow> photoFailed (if m \<noteq> [] then m else ''An unknown error occurred.'') img)"

text \<open>The calls of one turn of the loop: the request (if one is sent) and the pause.\<close>

definition turnEvents :: "World \<Rightarrow> FormState \<Rightarrow> string list \<Rightarrow> nat \<Rightarrow> Event list" where
  "turnEvents w fs poseTasks index =
     snd (generateImage w index (photoParts fs (poseTasks ! index)))
     @ (if index < length poseTasks - 1 \<and> delay fs > 0 then [Sleep (delay fs * 1000)] else [])"

text \<open>The image requests of a log, in order, and the number of video jobs submitted.\<close>

fun imageRequests :: "Event list \<Rightarrow> Part list list" where
  "imageRequests [] = []"
| "imageRequests (ImageRequest parts # es) = parts # imageRequests es"
| "imageRequests (e # es) = imageRequests es"

fun videoSubmits :: "Event list \<Rightarrow> nat" where
  "videoSubmits [] = 0"
| "videoSubmits (VideoSubmit bytes mime ratio # es) = Suc (videoSubmits es)"
| "videoSubmits (e # es) = videoSubmits es"

text \<open>
  What the end of a regeneration writes into the item: the new image or the failure.
  And what the end of a video generation writes: the video or the failure.
\<close>

definition regenSettle :: "string + string \<Rightarrow> ImageResult \<Rightarrow> ImageResult" where
  "regenSettle r = (case r of Inr imageUrl \<Rightarrow> photoSucceeded imageUrl | Inl m \<Rightarrow> photoFailed m)"

definition videoSettle :: "string + string \<Rightarrow> ImageResult \<Rightarrow> ImageResult" where
  "videoSettle r = (case r of Inr v \<Rightarrow> videoSucceeded v | Inl m \<Rightarrow> videoFailed m)"

text \<open>
  The invariant of the specification on one item: the photo result (a non-empty \<open>src\<close>)
  is present exactly in state \<open>success\<close> and the photo error exactly in state \<open>error\<close>;
  hence never both. And its half that every handler keeps: each state has its payload.
\<close>

definition photoInvariant :: "ImageResult \<Rightarrow> bool" where
  "photoInvariant img =
     ((src img \<noteq> []) = (photoStatus img = success) \<and> (photoError img \<noteq> None) = (photoStatus img = error))"

definition photoPayload :: "ImageResult \<Rightarrow> bool" where
  "photoPayload img =
     ((photoStatus img = success \<longrightarrow> src img \<noteq> []) \<and> (photoStatus img = error \<longrightarrow> photoError img \<noteq> None))"

section \<open>Example runs\<close>

text \<open>
  A world with a stored key, in which the model answers planning with \<open>pr\<close> and the
  \<open>n\<close>-th image request with \<open>ir n\<close>; a video operation is done at the third poll.
\<close>

definition okResponse :: GenerateContentResponse where
  "okResponse =
     \<lparr>blockReason = [], feedbackRatings = [],
      candidates = [\<lparr>finishReason = ''STOP'', safetyRatings = [],
                     contentParts = [\<lparr>inlineData = Some \<lparr>data = ''AAAA'', mimeType = ''image/png''\<rparr>,
                                      partText = None\<rparr>]\<rparr>]\<rparr>"

definition exWorld :: "PosesReply \<Rightarrow> (nat \<Rightarrow> string + GenerateContentResponse) \<Rightarrow> World" where
  "exWorld pr ir =
     \<lparr>storedKey = Some ''key'', envKey = None,
      posesReply = (\<lambda>parts. pr),
      imageReply = (\<lambda>n parts. ir n),
      matchDataUrl = (\<lambda>url. Some (''image/png'', ''AAAA'')),
      submitReply = (\<lambda>bytes mime ratio. Inr \<lparr>opDone = False, videoUri = []\<rparr>),
      pollReply = (\<lambda>n. Inr \<lparr>opDone = (2 \<le> n), videoUri = ''https://video/1?alt=media''\<rparr>),
      fetchReply = (\<lambda>url. Inr \<lparr>ok = True, statusText = ''OK'', bodyBase64 = Inr ''data:video/mp4;base64,BBBB''\<rparr>),
      dateNow = 1000, isoNow = ''2025-01-01T00:00:00.000Z''\<rparr>"

text \<open>The first item fails, every other one succeeds (scenario B of the specification).\<close>

definition failFirst :: "nat \<Rightarrow> string + GenerateContentResponse" where
  "failFirst n = (if n = 0 then Inl ''quota exceeded'' else Inr okResponse)"

text \<open>One item of a finished batch, with a given photo and video state.\<close>

definition exItem :: "Status \<Rightarrow> string option \<Rightarrow> VideoStatus option \<Rightarrow> string option \<Rightarrow> ImageResult" where
  "exItem st err vst vsrc =
     \<lparr>imgId = ''1000-0'', src = ''data:image/png;base64,AAAA'', prompt = ''pose-a'',
      imgStyle = ''e-commerce'', imgAspectRatio = ''9:16'', photoStatus = st, photoError = err,
      videoSrc = vsrc, videoStatus = vst, videoError = None\<rparr>"

definition exApp :: "World \<Rightarrow> ImageResult list \<Rightarrow> FormState option \<Rightarrow> App" where
  "exApp w imgs lfs = (initialApp w [])\<lparr>images := imgs, lastUsedFormState := lfs\<rparr>"

text \<open>
  Scenario B of the specification (two poses planned, the first image fails) and
  scenario C (planning returns an empty list), both on the initial form, which asks for
  three images.
\<close>

definition worldB :: World where
  "worldB = exWorld (PosesArray [''pose-a'', ''pose-b'']) failFirst"

definition worldC :: World where
  "worldC = exWorld (PosesArray []) failFirst"

text \<open>Scenario A: every image succeeds.\<close>

definition worldA :: World where
  "worldA = exWorld (PosesArray [''pose-a'', ''pose-b'']) (\<lambda>n. Inr okResponse)"

text \<open>
  A finished batch of one item in a given state, with the form data of the batch
  (\<open>exBatch\<close>), and the same item shown from the history after a reload, when no batch
  has been started (\<open>exViewed\<close>).
\<close>

definition exForm :: FormState where
  "exForm = \<lparr>productImage = None, modelImage = None, productDescription = ''a red scarf'',
             numberOfImages = 1, delay = 0, style = ''e-commerce'', aspectRatio = ''9:16''\<rparr>"

definition exBatch :: "World \<Rightarrow> ImageResult \<Rightarrow> App" where
  "exBatch w img = exApp w [img] (Some exForm)"

definition exViewed :: "World \<Rightarrow> ImageResult \<Rightarrow> App" where
  "exViewed w img = exApp w [img] None"

section \<open>The prompt builder\<close>

lemma description_step:
  "(if d \<noteq> [] then t @ '' The product is: \"'' @ d @ ''\".'' else t) = t @ spec_description d"
  by (simp add: spec_description_def)

lemma reference_step:
  "(if m \<noteq> None \<and> p \<noteq> None
    then t @ '' Featuring the attached model posing with the attached product.''
    else if m \<noteq> None
    then t @ '' Featuring the attached model in a commercial setting.''
    else if p \<noteq> None
    then t @ '' Featuring a fashion model posing with the attached product.''
    else t @ '' Featuring a fashion model posing with a generic commercial product.'')
   = t @ spec_reference (p \<noteq> None) (m \<noteq> None)"
  by (cases "p = None"; cases "m = None"; simp)

lemma style_step:
  "(if s = ''e-commerce''
        then t @ '' The overall style should be photorealistic, clean, and professional. The background must be a completely plain, solid white background (#FFFFFF) suitable for an e-commerce product listing. The lighting should be bright and even, minimizing shadows. High-end commercial photography, sharp focus on the product and model.''
        else if s = ''studio-bokeh''
        then t @ '' The style is photorealistic. The background should be a clean studio setting with a soft, out-of-focus bokeh effect, creating a sense of depth. The lighting should be professional and flattering.''
        else if s = ''cinematic''
        then t @ '' The style should be cinematic, with dramatic, high-contrast lighting (chiaroscuro). The background should be dark and moody, suggesting a scene from a film.''
        else if s = ''high-fashion''
        then t @ '' The style should be high-fashion and avant-garde. The background must be an abstract, geometric pattern with bold colors and shapes.''
        else if s = ''lifestyle''
        then t @ '' Create a lifestyle scene with the model in a natural, candid pose. The setting should be outdoors with beautiful, warm, natural light (golden hour).''
        else if s = ''vintage''
        then t @ '' The style should be vintage, reminiscent of old film photography. Apply a sepia tone, add subtle film grain, and use soft, nostalgic lighting.''
        else if s = ''minimalist''
        then t @ '' The style must be minimalist and clean. The background should be a simple, neutral-colored studio setting with even, soft lighting.''
        else if s = ''dramatic''
        then t @ '' The style should be dramatic and theatrical. Use a single, hard light source to create deep shadows and a strong focal point. The background should be dark or black.''
        else if s = ''monochrome''
        then t @ '' The image must be in black and white (monochrome). The background should be a simple studio setting, focusing on texture, form, and light.''
        else t @ '' The overall style should be '' @ s @ ''. The background should be a clean studio setting with professional lighting. High-end commercial photography, sharp focus.'')
   = t @ spec_style s"
  by (simp add: spec_style_def spec_styles_def spec_generic_style_def)

lemma constructPrompt_spec_prompt: "constructPrompt fs pose = spec_prompt fs pose"
  unfolding constructPrompt_def spec_prompt_def
  by (simp only: Let_def description_step reference_step style_step append_assoc
        spec_preamble_def spec_pose_def spec_aspect_def)

lemma spec_reference_distinct:
  "distinct [spec_reference True True, spec_reference False True,
             spec_reference True False, spec_reference False False]"
  by simp

lemma spec_styles_keys:
  "map fst spec_styles = [''e-commerce'', ''studio-bokeh'', ''cinematic'', ''high-fashion'',
      ''lifestyle'', ''vintage'', ''minimalist'', ''dramatic'', ''monochrome'']"
  by (simp add: spec_styles_def)

lemma spec_style_fallback:
  "spec_style s = (if s \<in> set (map fst spec_styles) then the (map_of spec_styles s) else spec_generic_style s)"
proof -
  have "(s \<in> set (map fst spec_styles)) = (map_of spec_styles s \<noteq> None)"
    by (simp add: map_of_eq_None_iff)
  then show ?thesis
    by (cases "map_of spec_styles s") (simp_all add: spec_style_def)
qed

text \<open>
  Claim C9. The prompt is a function of the batch parameters and the pose alone, so the
  same inputs give the same text, and it never fails. It is the concatenation of the
  fixed preamble, the description clause (empty for an empty description), one of four
  distinct reference clauses chosen by the presence of the product and model images,
  the pose clause, the aspect-ratio clause, and the style clause: the fixed clause of
  one of the nine styles of the table, or for any other style the generic clean-studio
  clause.
\<close>

theorem constructPrompt_is_spec_prompt:
  "constructPrompt fs pose =
     spec_preamble
     @ spec_description (productDescription fs)
     @ spec_reference (productImage fs \<noteq> None) (modelImage fs \<noteq> None)
     @ spec_pose pose
     @ spec_aspect (aspectRatio fs)
     @ (if style fs \<in> set (map fst spec_styles) then the (map_of spec_styles (style fs))
        else spec_generic_style (style fs))
   \<and> spec_description [] = []
   \<and> distinct [spec_reference True True, spec_reference False True,
               spec_reference True False, spec_reference False False]
   \<and> map fst spec_styles = [''e-commerce'', ''studio-bokeh'', ''cinematic'', ''high-fashion'',
        ''lifestyle'', ''vintage'', ''minimalist'', ''dramatic'', ''monochrome'']"
proof -
  have "constructPrompt fs pose =
     spec_preamble
     @ spec_description (productDescription fs)
     @ spec_reference (productImage fs \<noteq> None) (modelImage fs \<noteq> None)
     @ spec_pose pose
     @ spec_aspect (aspectRatio fs)
     @ (if style fs \<in> set (map fst spec_styles) then the (map_of spec_styles (style fs))
        else spec_generic_style (style fs))"
    unfolding constructPrompt_spec_prompt spec_prompt_def
    by (simp only: spec_style_fallback[symmetric])
  moreover have "spec_description [] = []" by (simp add: spec_description_def)
  ultimately show ?thesis using spec_reference_distinct spec_styles_keys by blast
qed

section \<open>The helpers, the effect and the messages of generateImage\<close>

lemma length_mapi_from: "length (mapi_from i f xs) = length xs"
  by (induction xs arbitrary: i) simp_all

lemma nth_mapi_from: "k < length xs \<Longrightarrow> mapi_from i f xs ! k = f (i + k) (xs ! k)"
proof (induction xs arbitrary: i k)
  case Nil
  then show ?case by simp
next
  case (Cons x xs)
  then show ?case by (cases k) simp_all
qed

lemma length_mapi: "length (mapi f xs) = length xs"
  by (simp add: mapi_def length_mapi_from)

lemma nth_mapi: "k < length xs \<Longrightarrow> mapi f xs ! k = f k (xs ! k)"
  by (simp add: mapi_def nth_mapi_from)

lemma mapi_from_comp: "mapi_from i f (mapi_from i g xs) = mapi_from i (\<lambda>k x. f k (g k x)) xs"
  by (induction xs arbitrary: i) simp_all

lemma mapi_comp: "mapi f (mapi g xs) = mapi (\<lambda>k x. f k (g k x)) xs"
  by (simp add: mapi_def mapi_from_comp)

lemma mapi_from_id: "(\<And>k x. i \<le> k \<Longrightarrow> f k x = x) \<Longrightarrow> mapi_from i f xs = xs"
  by (induction xs arbitrary: i) simp_all

lemma historyEffect_fields:
  "images (historyEffect w s) = images s"
  "isLoading (historyEffect w s) = isLoading s"
  "appError (historyEffect w s) = appError s"
  "lastUsedFormState (historyEffect w s) = lastUsedFormState s"
  "formState (historyEffect w s) = formState s"
  "viewingVideo (historyEffect w s) = viewingVideo s"
  "isApiKeyModalOpen (historyEffect w s) = isApiKeyModalOpen s"
  "prevIsLoading (historyEffect w s) = isLoading s"
  by (simp_all add: historyEffect_def Let_def split: option.split)

lemma historyEffect_settled: "prevIsLoading s = isLoading s \<Longrightarrow> historyEffect w s = s"
  by (cases "isLoading s"; cases "prevIsLoading s"; cases "lastUsedFormState s")
     (simp_all add: historyEffect_def Let_def)

lemma isCustomError_nonempty: "isCustomError m \<Longrightarrow> m \<noteq> []"
  by (auto simp: isCustomError_def startsWith_def)

lemma generateImage_catch_nonempty: "generateImage_catch r = Inl m \<Longrightarrow> m \<noteq> []"
  by (auto simp: generateImage_catch_def isCustomError_nonempty split: sum.splits if_splits)

lemma getAiClient_nonempty: "getAiClient w = Inl m \<Longrightarrow> m \<noteq> []"
  by (auto simp: getAiClient_def split: option.splits if_splits)

lemma generateImage_message: "fst (generateImage w n parts) = Inl m \<Longrightarrow> m \<noteq> []"
  by (auto simp: generateImage_def generateImage_catch_nonempty getAiClient_nonempty split: sum.splits)

lemma firstInlineImage_nonempty: "firstInlineImage ps = Some url \<Longrightarrow> url \<noteq> []"
  by (induction ps) (auto split: option.splits if_splits)

lemma generateImage_try_url: "generateImage_try r = Inr url \<Longrightarrow> url \<noteq> []"
  by (auto simp: generateImage_try_def Let_def firstInlineImage_nonempty split: sum.splits if_splits list.splits option.splits)

lemma generateImage_url: "fst (generateImage w n parts) = Inr url \<Longrightarrow> url \<noteq> []"
  by (auto simp: generateImage_def generateImage_catch_def generateImage_try_url split: sum.splits if_splits)

section \<open>The loop of generatePhotos under the callbacks of handleGenerate\<close>

declare generatePhotos_loop.simps [simp del]

lemma mapi_from_cong: "(\<And>k x. i \<le> k \<Longrightarrow> f k x = g k x) \<Longrightarrow> mapi_from i f xs = mapi_from i g xs"
  by (induction xs arbitrary: i) simp_all

lemma mapi_cong: "(\<And>k x. f k x = g k x) \<Longrightarrow> mapi f xs = mapi g xs"
  unfolding mapi_def by (rule mapi_from_cong) simp

lemma mapi_id: "(\<And>k x. f k x = x) \<Longrightarrow> mapi f xs = xs"
  by (simp add: mapi_def mapi_from_id)

lemma settledItem_Inl:
  "generateImage w index (photoParts fs (poseTasks ! index)) = (Inl m, ev) \<Longrightarrow>
   settledItem w fs poseTasks index = photoFailed (if m \<noteq> [] then m else ''An unknown error occurred.'')"
  by (rule ext) (simp add: settledItem_def)

lemma settledItem_Inr:
  "generateImage w index (photoParts fs (poseTasks ! index)) = (Inr url, ev) \<Longrightarrow>
   settledItem w fs poseTasks index = photoSucceeded url"
  by (rule ext) (simp add: settledItem_def)

lemma generatePhotos_step_app:
  assumes "isLoading s" "prevIsLoading s"
  shows "generatePhotos_step w fs poseTasks (onPhotoSuccess w) (onPhotoError w) index (s, tr) =
           (s\<lparr>images := updateByIndex index (settledItem w fs poseTasks index) (images s)\<rparr>,
            tr @ turnEvents w fs poseTasks index)"
proof (cases "generateImage w index (photoParts fs (poseTasks ! index))")
  case (Pair r ev)
  have idle: "\<And>imgs. historyEffect w (s\<lparr>images := imgs\<rparr>) = s\<lparr>images := imgs\<rparr>"
    using assms by (simp add: historyEffect_settled)
  show ?thesis
  proof (cases r)
    case (Inl m)
    with Pair have g: "generateImage w index (photoParts fs (poseTasks ! index)) = (Inl m, ev)" by simp
    show ?thesis
      by (simp add: generatePhotos_step_def settledItem_Inl[OF g] turnEvents_def onPhotoError_def idle g)
  next
    case (Inr url)
    with Pair have g: "generateImage w index (photoParts fs (poseTasks ! index)) = (Inr url, ev)" by simp
    show ?thesis
      by (simp add: generatePhotos_step_def settledItem_Inr[OF g] turnEvents_def onPhotoSuccess_def idle g)
  qed
qed


lemma generatePhotos_loop_app:
  assumes "isLoading s" "prevIsLoading s"
  shows "generatePhotos_loop w fs poseTasks (onPhotoSuccess w) (onPhotoError w) k (s, tr) =
           (s\<lparr>images := mapi (\<lambda>i img. if k \<le> i \<and> i < length poseTasks
                                        then settledItem w fs poseTasks i img else img) (images s)\<rparr>,
            tr @ concat (map (turnEvents w fs poseTasks) [k..<length poseTasks]))"
  using assms
proof (induction "length poseTasks - k" arbitrary: k s tr)
  case 0
  then have nlt: "\<not> k < length poseTasks" by simp
  then have "mapi (\<lambda>i img. if k \<le> i \<and> i < length poseTasks
                            then settledItem w fs poseTasks i img else img) (images s) = images s"
    by (intro mapi_id) auto
  with nlt show ?case by (subst generatePhotos_loop.simps) simp
next
  case (Suc d)
  then have lt: "k < length poseTasks" by simp
  let ?s' = "s\<lparr>images := updateByIndex k (settledItem w fs poseTasks k) (images s)\<rparr>"
  have d: "d = length poseTasks - Suc k" using Suc.hyps(2) by simp
  have l: "isLoading ?s'" "prevIsLoading ?s'" using Suc.prems by simp_all
  have comp: "mapi (\<lambda>i img. if Suc k \<le> i \<and> i < length poseTasks then settledItem w fs poseTasks i img else img)
          (updateByIndex k (settledItem w fs poseTasks k) (images s))
        = mapi (\<lambda>i img. if k \<le> i \<and> i < length poseTasks then settledItem w fs poseTasks i img else img) (images s)"
    unfolding updateByIndex_def mapi_comp using lt by (intro mapi_cong) auto
  have "generatePhotos_loop w fs poseTasks (onPhotoSuccess w) (onPhotoError w) k (s, tr)
      = generatePhotos_loop w fs poseTasks (onPhotoSuccess w) (onPhotoError w) (Suc k)
          (?s', tr @ turnEvents w fs poseTasks k)"
    using lt Suc.prems by (subst generatePhotos_loop.simps) (simp add: generatePhotos_step_app)
  also have "\<dots> = (?s'\<lparr>images := mapi (\<lambda>i img. if Suc k \<le> i \<and> i < length poseTasks
                                        then settledItem w fs poseTasks i img else img) (images ?s')\<rparr>,
            (tr @ turnEvents w fs poseTasks k) @ concat (map (turnEvents w fs poseTasks) [Suc k..<length poseTasks]))"
    by (rule Suc.hyps(1)[OF d l])
  also have "\<dots> = (s\<lparr>images := mapi (\<lambda>i img. if k \<le> i \<and> i < length poseTasks
                                        then settledItem w fs poseTasks i img else img) (images s)\<rparr>,
            tr @ concat (map (turnEvents w fs poseTasks) [k..<length poseTasks]))"
    using lt by (simp add: comp upt_conv_Cons)
  finally show ?case .
qed

section \<open>The two outcomes of handleGenerate\<close>

lemma length_initialImages: "length (initialImages w fs poses) = length poses"
  by (simp add: initialImages_def length_mapi)

lemma mapi_bounded:
  "mapi (\<lambda>i x. if 0 \<le> i \<and> i < length xs then f i x else x) xs = mapi f xs"
  by (rule nth_equalityI) (simp_all add: length_mapi nth_mapi)

lemma generatePoses_key: "fst (generatePoses w d p n) = Inr poses \<Longrightarrow> \<exists>k. getAiClient w = Inr k"
  by (cases "getAiClient w") (simp_all add: generatePoses_def)

lemma generatePoses_no_image: "imageRequests (snd (generatePoses w d p n)) = []"
  by (cases "getAiClient w") (simp_all add: generatePoses_def Let_def)

lemma handleGenerate_planned:
  assumes plan: "fst (generatePoses w (productDescription (formState s0)) (productImage (formState s0))
                   (numberOfImages (formState s0))) = Inr poses"
    and ne: "poses \<noteq> []"
  shows "handleGenerate w s0 =
     (s0\<lparr>isLoading := False, appError := None,
         images := mapi (settledItem w (formState s0) poses) (initialImages w (formState s0) poses),
         lastUsedFormState := Some (formState s0),
         history := addToHistory w (formState s0)
                      (mapi (settledItem w (formState s0) poses) (initialImages w (formState s0) poses))
                      (history s0),
         prevIsLoading := False\<rparr>,
      snd (generatePoses w (productDescription (formState s0)) (productImage (formState s0))
                   (numberOfImages (formState s0)))
      @ concat (map (turnEvents w (formState s0) poses) [0..<length poses]))"
proof -
  obtain ev where g: "generatePoses w (productDescription (formState s0)) (productImage (formState s0))
                   (numberOfImages (formState s0)) = (Inr poses, ev)"
    using plan by (cases "generatePoses w (productDescription (formState s0)) (productImage (formState s0))
                   (numberOfImages (formState s0))") simp
  let ?s1 = "historyEffect w (s0\<lparr>isLoading := True, appError := None, images := [],
                                 lastUsedFormState := Some (formState s0)\<rparr>)"
  let ?s2 = "historyEffect w (?s1\<lparr>images := initialImages w (formState s0) poses\<rparr>)"
  have s1: "?s1 = s0\<lparr>isLoading := True, appError := None, images := [],
                      lastUsedFormState := Some (formState s0), prevIsLoading := True\<rparr>"
    by (simp add: historyEffect_def)
  have s2: "?s2 = s0\<lparr>isLoading := True, appError := None, images := initialImages w (formState s0) poses,
                      lastUsedFormState := Some (formState s0), prevIsLoading := True\<rparr>"
    unfolding s1 by (simp add: historyEffect_def)
  have l: "isLoading ?s2" "prevIsLoading ?s2" unfolding s2 by simp_all
  have b: "mapi (\<lambda>i img. if 0 \<le> i \<and> i < length poses then settledItem w (formState s0) poses i img else img)
             (initialImages w (formState s0) poses)
           = mapi (settledItem w (formState s0) poses) (initialImages w (formState s0) poses)"
    using mapi_bounded[where f="settledItem w (formState s0) poses" and xs="initialImages w (formState s0) poses"]
    by (simp add: length_initialImages)
  have loop: "generatePhotos w (formState s0) poses (onPhotoSuccess w) (onPhotoError w) ?s2 =
      (?s2\<lparr>images := mapi (settledItem w (formState s0) poses) (initialImages w (formState s0) poses)\<rparr>,
       concat (map (turnEvents w (formState s0) poses) [0..<length poses]))"
    unfolding generatePhotos_def generatePhotos_loop_app[OF l] using b by (simp add: s2)
  show ?thesis
    unfolding handleGenerate_def Let_def g using ne
    by (simp add: loop handleGenerate_finally_def del: upt.simps) (simp add: s2 historyEffect_def)
qed

lemma handleGenerate_unplanned:
  assumes "fst (generatePoses w (productDescription (formState s0)) (productImage (formState s0))
                   (numberOfImages (formState s0))) = Inl m
           \<or> fst (generatePoses w (productDescription (formState s0)) (productImage (formState s0))
                   (numberOfImages (formState s0))) = Inr []
             \<and> m = ''The AI failed to generate any poses. Try adjusting the description.''"
  shows "handleGenerate w s0 =
     (s0\<lparr>isLoading := False, appError := Some (''An unexpected error occurred: '' @ m),
         images := [], lastUsedFormState := Some (formState s0),
         isApiKeyModalOpen := (includes_str m ''API key not found'' \<or> isApiKeyModalOpen s0),
         history := addToHistory w (formState s0) [] (history s0),
         prevIsLoading := False\<rparr>,
      snd (generatePoses w (productDescription (formState s0)) (productImage (formState s0))
                   (numberOfImages (formState s0))))"
proof -
  let ?g = "generatePoses w (productDescription (formState s0)) (productImage (formState s0))
                   (numberOfImages (formState s0))"
  let ?s1 = "historyEffect w (s0\<lparr>isLoading := True, appError := None, images := [],
                                 lastUsedFormState := Some (formState s0)\<rparr>)"
  have s1: "?s1 = s0\<lparr>isLoading := True, appError := None, images := [],
                      lastUsedFormState := Some (formState s0), prevIsLoading := True\<rparr>"
    by (simp add: historyEffect_def)
  have fin: "handleGenerate_finally w (handleGenerate_catch m ?s1) =
     s0\<lparr>isLoading := False, appError := Some (''An unexpected error occurred: '' @ m),
         images := [], lastUsedFormState := Some (formState s0),
         isApiKeyModalOpen := (includes_str m ''API key not found'' \<or> isApiKeyModalOpen s0),
         history := addToHistory w (formState s0) [] (history s0),
         prevIsLoading := False\<rparr>"
    unfolding s1 by (cases "includes_str m ''API key not found''")
      (simp_all add: handleGenerate_finally_def handleGenerate_catch_def Let_def historyEffect_def)
  obtain r ev where g: "?g = (r, ev)" by (cases ?g)
  from assms g have "r = Inl m \<or> r = Inr [] \<and> m = ''The AI failed to generate any poses. Try adjusting the description.''"
    by simp
  then show ?thesis
    unfolding handleGenerate_def Let_def g using fin by auto
qed

section \<open>Batches\<close>


lemma imageRequests_append: "imageRequests (a @ b) = imageRequests a @ imageRequests b"
  by (induction a rule: imageRequests.induct) simp_all

lemma imageRequests_turns:
  assumes "getAiClient w = Inr key"
  shows "imageRequests (concat (map (turnEvents w fs poses) is)) = map (\<lambda>i. photoParts fs (poses ! i)) is"
  using assms by (induction "is") (simp_all add: imageRequests_append turnEvents_def generateImage_def)

lemma nth_settled:
  assumes "i < length poses"
  shows "mapi (settledItem w fs poses) (initialImages w fs poses) ! i
         = settledItem w fs poses i (initialImages w fs poses ! i)"
  using assms by (simp add: nth_mapi length_initialImages)

lemma nth_initialImages:
  assumes "i < length poses"
  shows "initialImages w fs poses ! i =
     \<lparr>imgId = decimal (dateNow w) @ ''-'' @ decimal i,
      src = [], prompt = poses ! i, imgStyle = style fs, imgAspectRatio = aspectRatio fs,
      photoStatus = loading, photoError = None,
      videoSrc = None, videoStatus = Some v_idle, videoError = None\<rparr>"
  using assms by (simp add: initialImages_def nth_mapi)

lemma set_addToHistory: "set (addToHistory w fs imgs h) =
   insert \<lparr>entryId = dateNow w, date = isoNow w, entryFormState = fs, entryImages = imgs\<rparr> (set h)"
  unfolding addToHistory_def Let_def by (simp only: set_sort list.set)

lemma length_addToHistory: "length (addToHistory w fs imgs h) = Suc (length h)"
  by (simp add: addToHistory_def Let_def)

text \<open>
  Claim C1. Once planning has returned a non-empty list of poses, the loop attempts
  every item, in the order of the poses, whatever happened to the items before it: the
  image requests sent are exactly those of the poses, in order. The terminal state of
  each item is decided by its own request alone: \<open>error\<close> with the reason thrown by
  \<open>generateImage\<close> (never empty, so the fallback text is never used), or \<open>success\<close>
  with the image. The batch then ends (\<open>isLoading\<close> is false) and one entry holding the
  form data and the final items is added to the history.
\<close>

theorem batch_continues_after_item_failure:
  assumes plan: "fst (generatePoses w (productDescription (formState s0)) (productImage (formState s0))
                   (numberOfImages (formState s0))) = Inr poses"
    and ne: "poses \<noteq> []"
  shows "length (images (fst (handleGenerate w s0))) = length poses
     \<and> (\<forall>i < length poses.
          (case fst (generateImage w i (photoParts (formState s0) (poses ! i))) of
             Inl m \<Rightarrow> photoStatus (images (fst (handleGenerate w s0)) ! i) = error
                      \<and> photoError (images (fst (handleGenerate w s0)) ! i) = Some m
           | Inr url \<Rightarrow> photoStatus (images (fst (handleGenerate w s0)) ! i) = success
                      \<and> src (images (fst (handleGenerate w s0)) ! i) = url))
     \<and> imageRequests (snd (handleGenerate w s0)) = map (photoParts (formState s0)) poses
     \<and> \<not> isLoading (fst (handleGenerate w s0))
     \<and> \<lparr>entryId = dateNow w, date = isoNow w, entryFormState = formState s0,
         entryImages = images (fst (handleGenerate w s0))\<rparr> \<in> set (history (fst (handleGenerate w s0)))
     \<and> length (history (fst (handleGenerate w s0))) = Suc (length (history s0))"
proof -
  note run = handleGenerate_planned[OF plan ne]
  obtain key where key: "getAiClient w = Inr key" using generatePoses_key[OF plan] by blast
  have len: "length (images (fst (handleGenerate w s0))) = length poses"
    by (simp add: run length_mapi length_initialImages)
  have items: "\<forall>i < length poses.
          (case fst (generateImage w i (photoParts (formState s0) (poses ! i))) of
             Inl m \<Rightarrow> photoStatus (images (fst (handleGenerate w s0)) ! i) = error
                      \<and> photoError (images (fst (handleGenerate w s0)) ! i) = Some m
           | Inr url \<Rightarrow> photoStatus (images (fst (handleGenerate w s0)) ! i) = success
                      \<and> src (images (fst (handleGenerate w s0)) ! i) = url)"
  proof (intro allI impI)
    fix i assume i: "i < length poses"
    show "case fst (generateImage w i (photoParts (formState s0) (poses ! i))) of
             Inl m \<Rightarrow> photoStatus (images (fst (handleGenerate w s0)) ! i) = error
                      \<and> photoError (images (fst (handleGenerate w s0)) ! i) = Some m
           | Inr url \<Rightarrow> photoStatus (images (fst (handleGenerate w s0)) ! i) = success
                      \<and> src (images (fst (handleGenerate w s0)) ! i) = url"
    proof (cases "fst (generateImage w i (photoParts (formState s0) (poses ! i)))")
      case (Inl m)
      then have "m \<noteq> []" by (rule generateImage_message)
      with Inl i show ?thesis
        by (simp add: run nth_settled settledItem_def photoFailed_def)
    next
      case (Inr url)
      with i show ?thesis
        by (simp add: run nth_settled settledItem_def photoSucceeded_def)
    qed
  qed
  have "map (\<lambda>i. photoParts (formState s0) (poses ! i)) [0..<length poses] = map (photoParts (formState s0)) poses"
    by (rule nth_equalityI) simp_all
  then have reqs: "imageRequests (snd (handleGenerate w s0)) = map (photoParts (formState s0)) poses"
    by (simp add: run imageRequests_append generatePoses_no_image imageRequests_turns[OF key] del: upt.simps)
  have fin: "\<not> isLoading (fst (handleGenerate w s0))" by (simp add: run)
  have arch: "\<lparr>entryId = dateNow w, date = isoNow w, entryFormState = formState s0,
         entryImages = images (fst (handleGenerate w s0))\<rparr> \<in> set (history (fst (handleGenerate w s0)))"
    by (simp add: run set_addToHistory)
  have hl: "length (history (fst (handleGenerate w s0))) = Suc (length (history s0))"
    by (simp add: run length_addToHistory)
  from len items reqs fin arch hl show ?thesis by blast
qed

lemma worldB_plan: "fst (generatePoses worldB (productDescription (formState (initialApp worldB [])))
          (productImage (formState (initialApp worldB []))) (numberOfImages (formState (initialApp worldB []))))
        = Inr [''pose-a'', ''pose-b'']"
  by (simp add: generatePoses_def getAiClient_def getApiKey_def worldB_def exWorld_def Let_def)

lemma worldB_image0: "fst (generateImage worldB 0 parts) = Inl ''Failed to generate image: quota exceeded''"
  by (simp add: generateImage_def getAiClient_def getApiKey_def worldB_def exWorld_def failFirst_def
        generateImage_try_def generateImage_catch_def isCustomError_def startsWith_def)

lemma worldB_image1: "fst (generateImage worldB (Suc 0) parts) = Inr ''data:image/png;base64,AAAA''"
  by (simp add: generateImage_def getAiClient_def getApiKey_def worldB_def exWorld_def failFirst_def
        generateImage_try_def generateImage_catch_def okResponse_def)

text \<open>
  Scenario B: the first image request fails, the second succeeds; the batch is archived.
\<close>

theorem batch_continues_after_item_failure_witness:
  "photoStatus (images (fst (handleGenerate worldB (initialApp worldB []))) ! 0) = error
   \<and> photoError (images (fst (handleGenerate worldB (initialApp worldB []))) ! 0)
       = Some ''Failed to generate image: quota exceeded''
   \<and> photoStatus (images (fst (handleGenerate worldB (initialApp worldB []))) ! 1) = success
   \<and> src (images (fst (handleGenerate worldB (initialApp worldB []))) ! 1) = ''data:image/png;base64,AAAA''
   \<and> length (imageRequests (snd (handleGenerate worldB (initialApp worldB [])))) = 2
   \<and> length (history (fst (handleGenerate worldB (initialApp worldB [])))) = 1"
proof -
  have ne: "[''pose-a'', ''pose-b''] \<noteq> ([] :: string list)" by simp
  note t = batch_continues_after_item_failure[OF worldB_plan ne]
  from t have a: "\<forall>i<2. (case fst (generateImage worldB i (photoParts (formState (initialApp worldB [])) ([''pose-a'', ''pose-b''] ! i))) of
             Inl m \<Rightarrow> photoStatus (images (fst (handleGenerate worldB (initialApp worldB []))) ! i) = error
                      \<and> photoError (images (fst (handleGenerate worldB (initialApp worldB []))) ! i) = Some m
           | Inr url \<Rightarrow> photoStatus (images (fst (handleGenerate worldB (initialApp worldB []))) ! i) = success
                      \<and> src (images (fst (handleGenerate worldB (initialApp worldB []))) ! i) = url)"
    by simp
  from a[rule_format, of 0] have i0: "photoStatus (images (fst (handleGenerate worldB (initialApp worldB []))) ! 0) = error
   \<and> photoError (images (fst (handleGenerate worldB (initialApp worldB []))) ! 0)
       = Some ''Failed to generate image: quota exceeded''"
    by (simp add: worldB_image0)
  from a[rule_format, of 1] have i1: "photoStatus (images (fst (handleGenerate worldB (initialApp worldB []))) ! 1) = success
   \<and> src (images (fst (handleGenerate worldB (initialApp worldB []))) ! 1) = ''data:image/png;base64,AAAA''"
    by (simp add: worldB_image1)
  from t have r: "length (imageRequests (snd (handleGenerate worldB (initialApp worldB [])))) = 2" by simp
  from t have h: "length (history (fst (handleGenerate worldB (initialApp worldB [])))) = 1"
    by (simp add: initialApp_def)
  from i0 i1 r h show ?thesis by blast
qed


text \<open>
  Claim C3, as amended. After a batch whose planning returned a non-empty list of poses,
  there are exactly as many items as planned poses, in the order of the poses, as many
  as were created when planning succeeded, and each is in a terminal photo state. The
  number of poses is the model's answer: the code does not compare it with the
  requested count.
\<close>

theorem batch_outcome_matches_planned_poses:
  assumes plan: "fst (generatePoses w (productDescription (formState s0)) (productImage (formState s0))
                   (numberOfImages (formState s0))) = Inr poses"
    and ne: "poses \<noteq> []"
  shows "length (initialImages w (formState s0) poses) = length poses
     \<and> length (images (fst (handleGenerate w s0))) = length poses
     \<and> map prompt (images (fst (handleGenerate w s0))) = poses
     \<and> (\<forall>img \<in> set (images (fst (handleGenerate w s0))).
           photoStatus img = success \<or> photoStatus img = error)"
proof -
  note run = handleGenerate_planned[OF plan ne]
  have len: "length (images (fst (handleGenerate w s0))) = length poses"
    by (simp add: run length_mapi length_initialImages)
  have item: "photoStatus (images (fst (handleGenerate w s0)) ! i) \<noteq> loading
              \<and> prompt (images (fst (handleGenerate w s0)) ! i) = poses ! i"
    if "i < length poses" for i
    using that
    by (cases "fst (generateImage w i (photoParts (formState s0) (poses ! i)))")
       (simp_all add: run nth_settled nth_initialImages settledItem_def photoFailed_def photoSucceeded_def)
  have prompts: "map prompt (images (fst (handleGenerate w s0))) = poses"
    by (rule nth_equalityI) (simp_all add: len item)
  have terminal: "\<forall>img \<in> set (images (fst (handleGenerate w s0))).
           photoStatus img = success \<or> photoStatus img = error"
  proof
    fix img assume "img \<in> set (images (fst (handleGenerate w s0)))"
    then obtain i where "i < length poses" "img = images (fst (handleGenerate w s0)) ! i"
      using len by (auto simp: in_set_conv_nth)
    with item[of i] show "photoStatus img = success \<or> photoStatus img = error"
      by (cases "photoStatus img") simp_all
  qed
  from len prompts terminal show ?thesis by (simp add: length_initialImages)
qed

text \<open>
  Scenario B again: two poses, two items, both terminal.
\<close>

theorem batch_outcome_matches_planned_poses_witness:
  "length (images (fst (handleGenerate worldB (initialApp worldB [])))) = 2
   \<and> map prompt (images (fst (handleGenerate worldB (initialApp worldB [])))) = [''pose-a'', ''pose-b'']
   \<and> list_all (\<lambda>img. photoStatus img = success \<or> photoStatus img = error)
        (images (fst (handleGenerate worldB (initialApp worldB []))))"
proof -
  have ne: "[''pose-a'', ''pose-b''] \<noteq> ([] :: string list)" by simp
  from batch_outcome_matches_planned_poses[OF worldB_plan ne] show ?thesis
    by (simp add: list_all_iff)
qed

text \<open>
  Claim C3 as stated fails: the form asks for three images, planning answers with two
  poses, and the finished batch has two items.
\<close>

theorem requested_count_not_enforced_counterexample:
  "numberOfImages (formState (initialApp worldB [])) = 3
   \<and> length (images (fst (handleGenerate worldB (initialApp worldB [])))) = 2"
proof -
  have ne: "[''pose-a'', ''pose-b''] \<noteq> ([] :: string list)" by simp
  have "length (images (fst (handleGenerate worldB (initialApp worldB [])))) = 2"
    by (simp add: handleGenerate_planned[OF worldB_plan ne] length_mapi length_initialImages)
  then show ?thesis by (simp add: initialApp_def)
qed

text \<open>
  Claim C2, as amended. If planning throws, or returns an empty list, the failure is
  surfaced in the error message of the application, no item exists afterwards, no image
  request is sent, and the batch ends; but the effect that archives a finished job runs
  all the same and adds an entry with an empty list of items to the history.
\<close>

theorem planning_failure_outcome:
  assumes "fst (generatePoses w (productDescription (formState s0)) (productImage (formState s0))
                   (numberOfImages (formState s0))) = Inl m
           \<or> fst (generatePoses w (productDescription (formState s0)) (productImage (formState s0))
                   (numberOfImages (formState s0))) = Inr []
             \<and> m = ''The AI failed to generate any poses. Try adjusting the description.''"
  shows "appError (fst (handleGenerate w s0)) = Some (''An unexpected error occurred: '' @ m)
     \<and> images (fst (handleGenerate w s0)) = []
     \<and> imageRequests (snd (handleGenerate w s0)) = []
     \<and> \<not> isLoading (fst (handleGenerate w s0))
     \<and> \<lparr>entryId = dateNow w, date = isoNow w, entryFormState = formState s0, entryImages = []\<rparr>
          \<in> set (history (fst (handleGenerate w s0)))
     \<and> length (history (fst (handleGenerate w s0))) = Suc (length (history s0))"
  by (simp add: handleGenerate_unplanned[OF assms] generatePoses_no_image set_addToHistory
        length_addToHistory)

lemma worldC_plan: "fst (generatePoses worldC (productDescription (formState (initialApp worldC [])))
          (productImage (formState (initialApp worldC []))) (numberOfImages (formState (initialApp worldC []))))
        = Inr []"
  by (simp add: generatePoses_def getAiClient_def getApiKey_def worldC_def exWorld_def Let_def)

text \<open>
  Scenario C: planning returns an empty list.
\<close>

theorem planning_failure_outcome_witness:
  "appError (fst (handleGenerate worldC (initialApp worldC [])))
     = Some ''An unexpected error occurred: The AI failed to generate any poses. Try adjusting the description.''
   \<and> images (fst (handleGenerate worldC (initialApp worldC []))) = []
   \<and> length (history (fst (handleGenerate worldC (initialApp worldC [])))) = 1"
  using planning_failure_outcome[of worldC "initialApp worldC []"
          "''The AI failed to generate any poses. Try adjusting the description.''"]
  by (simp add: worldC_plan) (simp add: initialApp_def)

text \<open>
  Claim C2 as stated fails: in scenario C the history was empty before the attempt and
  holds one entry, with no items, after it.
\<close>

theorem planning_failure_archived_counterexample:
  "fst (generatePoses worldC (productDescription (formState (initialApp worldC [])))
          (productImage (formState (initialApp worldC []))) (numberOfImages (formState (initialApp worldC []))))
     = Inr []
   \<and> history (initialApp worldC []) = []
   \<and> map entryImages (history (fst (handleGenerate worldC (initialApp worldC [])))) = [[]]"
proof -
  have "handleGenerate worldC (initialApp worldC []) =
     ((initialApp worldC [])\<lparr>isLoading := False,
         appError := Some (''An unexpected error occurred: '' @ ''The AI failed to generate any poses. Try adjusting the description.''),
         images := [], lastUsedFormState := Some (formState (initialApp worldC [])),
         isApiKeyModalOpen := (includes_str ''The AI failed to generate any poses. Try adjusting the description.'' ''API key not found''
                               \<or> isApiKeyModalOpen (initialApp worldC [])),
         history := addToHistory worldC (formState (initialApp worldC [])) [] (history (initialApp worldC [])),
         prevIsLoading := False\<rparr>,
      snd (generatePoses worldC (productDescription (formState (initialApp worldC [])))
          (productImage (formState (initialApp worldC []))) (numberOfImages (formState (initialApp worldC [])))))"
    by (rule handleGenerate_unplanned) (simp add: worldC_plan)
  then have "history (fst (handleGenerate worldC (initialApp worldC [])))
      = addToHistory worldC (formState (initialApp worldC [])) [] (history (initialApp worldC []))"
    by simp
  moreover have "history (initialApp worldC []) = []" by (simp add: initialApp_def)
  ultimately show ?thesis by (simp add: worldC_plan addToHistory_def)
qed

section \<open>Updates of one item by its id\<close>

lemma find_updateById:
  assumes "find (\<lambda>x. imgId x = i) imgs = Some img" "\<And>x. imgId (f x) = imgId x"
  shows "find (\<lambda>x. imgId x = i) (updateById i f imgs) = Some (f img)"
  using assms by (induction imgs) (auto simp: updateById_def)

lemma updateById_comp:
  assumes "\<And>x. imgId (g x) = imgId x"
  shows "updateById i f (updateById i g imgs) = updateById i (\<lambda>x. f (g x)) imgs"
  using assms by (simp add: updateById_def)

lemma list_all_updateById:
  assumes "list_all P imgs" "\<And>x. P x \<Longrightarrow> P (f x)"
  shows "list_all P (updateById i f imgs)"
  using assms by (auto simp: updateById_def list_all_iff)

lemma set_updateById:
  "x \<in> set (updateById i f imgs) \<Longrightarrow> imgId x = i \<Longrightarrow> (\<And>y. imgId (f y) = imgId y) \<Longrightarrow> \<exists>y \<in> set imgs. x = f y"
  by (auto simp: updateById_def split: if_splits)

lemma imgId_updates [simp]:
  "imgId (regenerateLoading a b x) = imgId x"
  "imgId (photoSucceeded u x) = imgId x"
  "imgId (photoFailed m x) = imgId x"
  "imgId (videoLoading x) = imgId x"
  "imgId (videoSucceeded v x) = imgId x"
  "imgId (videoFailed m x) = imgId x"
  by (simp_all add: regenerateLoading_def photoSucceeded_def photoFailed_def videoLoading_def
        videoSucceeded_def videoFailed_def)

lemma imgId_regenSettle [simp]: "imgId (regenSettle r x) = imgId x"
  by (cases r) (simp_all add: regenSettle_def)

lemma images_handleRegenerate_settle:
  "images (handleRegenerate_settle w i r s) = updateById i (regenSettle r) (images s)"
  by (cases r) (simp_all add: handleRegenerate_settle_def regenSettle_def historyEffect_fields Let_def)

lemma images_handleRegenerate_start:
  "images (handleRegenerate_start w i a b s) = updateById i (regenerateLoading a b) (images s)"
  by (simp add: handleRegenerate_start_def historyEffect_fields)

lemma handleRegenerate_run:
  assumes "lastUsedFormState s = Some lfs"
    and "find (\<lambda>img. imgId img = imageId) (images s) = Some img"
    and "\<not> (newStyle = imgStyle img \<and> newPrompt = prompt img)"
  shows "handleRegenerate w imageId newStyle newPrompt s =
     (handleRegenerate_settle w imageId (fst (regeneratePhoto w (lfs\<lparr>style := newStyle\<rparr>) newPrompt))
        (handleRegenerate_start w imageId newStyle newPrompt s),
      snd (regeneratePhoto w (lfs\<lparr>style := newStyle\<rparr>) newPrompt))"
  using assms by (auto simp: handleRegenerate_def Let_def split_beta)

lemma handleRegenerate_images:
  assumes "lastUsedFormState s = Some lfs"
    and "find (\<lambda>img. imgId img = imageId) (images s) = Some img"
    and "\<not> (newStyle = imgStyle img \<and> newPrompt = prompt img)"
  shows "images (fst (handleRegenerate w imageId newStyle newPrompt s)) =
     updateById imageId
       (\<lambda>x. regenSettle (fst (regeneratePhoto w (lfs\<lparr>style := newStyle\<rparr>) newPrompt))
              (regenerateLoading newStyle newPrompt x))
       (images s)"
  by (simp add: handleRegenerate_run[OF assms] images_handleRegenerate_settle
        images_handleRegenerate_start updateById_comp)

section \<open>Regeneration\<close>

lemma regeneratePhoto_requests:
  assumes "getAiClient w = Inr key"
  shows "imageRequests (snd (regeneratePhoto w fs pose)) = [photoParts fs pose]"
  using assms by (simp add: regeneratePhoto_def generateImage_def)

lemma handleRegenerate_found:
  assumes "lastUsedFormState s = Some lfs"
    and "find (\<lambda>img. imgId img = imageId) (images s) = Some img"
    and "\<not> (newStyle = imgStyle img \<and> newPrompt = prompt img)"
  shows "find (\<lambda>x. imgId x = imageId) (images (fst (handleRegenerate w imageId newStyle newPrompt s)))
         = Some (regenSettle (fst (regeneratePhoto w (lfs\<lparr>style := newStyle\<rparr>) newPrompt))
                   (regenerateLoading newStyle newPrompt img))"
  unfolding handleRegenerate_images[OF assms]
  by (rule find_updateById[OF assms(2)]) simp

lemma appError_handleRegenerate_settle:
  "appError (handleRegenerate_settle w i r s) =
     (case r of Inr url \<Rightarrow> appError s | Inl m \<Rightarrow> Some (''Failed to regenerate image: '' @ m))"
  by (cases r) (simp_all add: handleRegenerate_settle_def historyEffect_fields Let_def)

lemma appError_handleRegenerate_start:
  "appError (handleRegenerate_start w i a b s) = appError s"
  by (simp add: handleRegenerate_start_def historyEffect_fields)

text \<open>
  Claim C7, as amended. When the original form data is there (a batch has been started
  since the page was loaded) and the request is not the identical-style-and-prompt
  no-op, regenerating an item leaves every item of that id with video state \<open>idle\<close>
  and with neither video result nor video error, whatever its video state was before;
  this holds from the moment the handler awaits the new image and after it has settled.
\<close>

theorem regenerate_resets_video:
  assumes "lastUsedFormState s = Some lfs"
    and "find (\<lambda>img. imgId img = imageId) (images s) = Some img"
    and "\<not> (newStyle = imgStyle img \<and> newPrompt = prompt img)"
  shows "(\<forall>x \<in> set (images (handleRegenerate_start w imageId newStyle newPrompt s)).
            imgId x = imageId \<longrightarrow> videoStatus x = Some v_idle \<and> videoSrc x = None \<and> videoError x = None)
       \<and> (\<forall>x \<in> set (images (fst (handleRegenerate w imageId newStyle newPrompt s))).
            imgId x = imageId \<longrightarrow> videoStatus x = Some v_idle \<and> videoSrc x = None \<and> videoError x = None)"
proof -
  have fields: "videoStatus (regenSettle r (regenerateLoading newStyle newPrompt y)) = Some v_idle
        \<and> videoSrc (regenSettle r (regenerateLoading newStyle newPrompt y)) = None
        \<and> videoError (regenSettle r (regenerateLoading newStyle newPrompt y)) = None" for r y
    by (cases r) (simp_all add: regenSettle_def regenerateLoading_def photoSucceeded_def photoFailed_def)
  have a: "\<forall>x \<in> set (images (handleRegenerate_start w imageId newStyle newPrompt s)).
            imgId x = imageId \<longrightarrow> videoStatus x = Some v_idle \<and> videoSrc x = None \<and> videoError x = None"
  proof (intro ballI impI)
    fix x assume "x \<in> set (images (handleRegenerate_start w imageId newStyle newPrompt s))"
      and "imgId x = imageId"
    then obtain y where "x = regenerateLoading newStyle newPrompt y"
      using set_updateById[of x imageId "regenerateLoading newStyle newPrompt" "images s"]
      by (auto simp: images_handleRegenerate_start)
    then show "videoStatus x = Some v_idle \<and> videoSrc x = None \<and> videoError x = None"
      by (simp add: regenerateLoading_def)
  qed
  have b: "\<forall>x \<in> set (images (fst (handleRegenerate w imageId newStyle newPrompt s))).
            imgId x = imageId \<longrightarrow> videoStatus x = Some v_idle \<and> videoSrc x = None \<and> videoError x = None"
  proof (intro ballI impI)
    fix x assume "x \<in> set (images (fst (handleRegenerate w imageId newStyle newPrompt s)))"
      and "imgId x = imageId"
    then obtain y where "x = regenSettle (fst (regeneratePhoto w (lfs\<lparr>style := newStyle\<rparr>) newPrompt))
                              (regenerateLoading newStyle newPrompt y)"
      using set_updateById[of x imageId
              "\<lambda>x. regenSettle (fst (regeneratePhoto w (lfs\<lparr>style := newStyle\<rparr>) newPrompt))
                     (regenerateLoading newStyle newPrompt x)" "images s"]
      by (auto simp: handleRegenerate_images[OF assms])
    then show "videoStatus x = Some v_idle \<and> videoSrc x = None \<and> videoError x = None"
      using fields by simp
  qed
  from a b show ?thesis by blast
qed

lemma exBatch_fields:
  "lastUsedFormState (exBatch w img) = Some exForm"
  "images (exBatch w img) = [img]"
  "appError (exBatch w img) = None"
  "isLoading (exBatch w img) = False"
  "prevIsLoading (exBatch w img) = False"
  by (simp_all add: exBatch_def exApp_def initialApp_def)

lemma exViewed_fields:
  "lastUsedFormState (exViewed w img) = None"
  "images (exViewed w img) = [img]"
  "appError (exViewed w img) = None"
  by (simp_all add: exViewed_def exApp_def initialApp_def)

lemma exItem_fields:
  "imgId (exItem st err vst vsrc) = ''1000-0''"
  "src (exItem st err vst vsrc) = ''data:image/png;base64,AAAA''"
  "prompt (exItem st err vst vsrc) = ''pose-a''"
  "imgStyle (exItem st err vst vsrc) = ''e-commerce''"
  "photoStatus (exItem st err vst vsrc) = st"
  "photoError (exItem st err vst vsrc) = err"
  "videoStatus (exItem st err vst vsrc) = vst"
  "videoSrc (exItem st err vst vsrc) = vsrc"
  "videoError (exItem st err vst vsrc) = None"
  by (simp_all add: exItem_def)

text \<open>
  A batch of one successful item with a finished video, regenerated in another style:
  the video state of the item is \<open>idle\<close> afterwards.
\<close>

theorem regenerate_resets_video_witness:
  "map videoStatus (images (fst (handleRegenerate worldA ''1000-0'' ''cinematic'' ''pose-a''
      (exBatch worldA (exItem success None (Some v_success) (Some ''data:video/mp4;base64,BBBB'')))))) = [Some v_idle]
   \<and> map videoSrc (images (fst (handleRegenerate worldA ''1000-0'' ''cinematic'' ''pose-a''
      (exBatch worldA (exItem success None (Some v_success) (Some ''data:video/mp4;base64,BBBB'')))))) = [None]"
proof -
  let ?img = "exItem success None (Some v_success) (Some ''data:video/mp4;base64,BBBB'')"
  let ?s = "exBatch worldA ?img"
  have l: "lastUsedFormState ?s = Some exForm" by (simp add: exBatch_fields)
  have f: "find (\<lambda>img. imgId img = ''1000-0'') (images ?s) = Some ?img"
    by (simp add: exBatch_fields exItem_fields)
  have c: "\<not> (''cinematic'' = imgStyle ?img \<and> ''pose-a'' = prompt ?img)"
    by (simp add: exItem_fields)
  have imgs: "images (fst (handleRegenerate worldA ''1000-0'' ''cinematic'' ''pose-a'' ?s))
      = [regenSettle (fst (regeneratePhoto worldA (exForm\<lparr>style := ''cinematic''\<rparr>) ''pose-a''))
           (regenerateLoading ''cinematic'' ''pose-a'' ?img)]"
    by (simp add: handleRegenerate_images[OF l f c] updateById_def exBatch_fields exItem_fields)
  from regenerate_resets_video[OF l f c, of worldA] show ?thesis
    unfolding imgs by (simp add: exItem_fields)
qed

text \<open>
  Claim C7 as stated fails: the same item shown from the history after a reload, when no
  batch has been started, is not reset by a regeneration request that changes the style;
  the handler reports that the form data is missing and the video stays \<open>success\<close>.
\<close>

theorem regenerate_without_form_data_counterexample:
  "imgStyle (exItem success None (Some v_success) (Some ''data:video/mp4;base64,BBBB'')) \<noteq> ''cinematic''
   \<and> map videoStatus (images (fst (handleRegenerate worldA ''1000-0'' ''cinematic'' ''pose-a''
        (exViewed worldA (exItem success None (Some v_success) (Some ''data:video/mp4;base64,BBBB''))))))
       = [Some v_success]
   \<and> appError (fst (handleRegenerate worldA ''1000-0'' ''cinematic'' ''pose-a''
        (exViewed worldA (exItem success None (Some v_success) (Some ''data:video/mp4;base64,BBBB'')))))
       = Some ''Cannot regenerate. Original form data not found.''"
  by (simp add: handleRegenerate_def exViewed_fields exItem_fields historyEffect_fields)

text \<open>
  Claim C10. If the image synthesis of a regeneration fails with reason \<open>m\<close>, nothing is
  rolled back: the item is the one before the request with photo state \<open>error\<close> and
  error \<open>m\<close>, the new style and prompt, video state \<open>idle\<close> and neither video result
  nor video error; its \<open>src\<close> is still the previous photo, and the application shows the
  failure.
\<close>

theorem regenerate_failure_not_rolled_back:
  assumes "lastUsedFormState s = Some lfs"
    and "find (\<lambda>img. imgId img = imageId) (images s) = Some img"
    and "\<not> (newStyle = imgStyle img \<and> newPrompt = prompt img)"
    and "fst (regeneratePhoto w (lfs\<lparr>style := newStyle\<rparr>) newPrompt) = Inl m"
  shows "find (\<lambda>x. imgId x = imageId) (images (fst (handleRegenerate w imageId newStyle newPrompt s)))
           = Some (img\<lparr>photoStatus := error, photoError := Some m,
                       imgStyle := newStyle, prompt := newPrompt,
                       videoStatus := Some v_idle, videoSrc := None, videoError := None\<rparr>)
       \<and> src (img\<lparr>photoStatus := error, photoError := Some m,
                       imgStyle := newStyle, prompt := newPrompt,
                       videoStatus := Some v_idle, videoSrc := None, videoError := None\<rparr>) = src img
       \<and> appError (fst (handleRegenerate w imageId newStyle newPrompt s))
           = Some (''Failed to regenerate image: '' @ m)"
proof -
  have "regenSettle (Inl m) (regenerateLoading newStyle newPrompt img)
      = img\<lparr>photoStatus := error, photoError := Some m,
                       imgStyle := newStyle, prompt := newPrompt,
                       videoStatus := Some v_idle, videoSrc := None, videoError := None\<rparr>"
    by (simp add: regenSettle_def regenerateLoading_def photoFailed_def)
  then have "find (\<lambda>x. imgId x = imageId) (images (fst (handleRegenerate w imageId newStyle newPrompt s)))
           = Some (img\<lparr>photoStatus := error, photoError := Some m,
                       imgStyle := newStyle, prompt := newPrompt,
                       videoStatus := Some v_idle, videoSrc := None, videoError := None\<rparr>)"
    using handleRegenerate_found[OF assms(1-3), of w] assms(4) by simp
  moreover have "appError (fst (handleRegenerate w imageId newStyle newPrompt s))
           = Some (''Failed to regenerate image: '' @ m)"
    by (simp add: handleRegenerate_run[OF assms(1-3)] appError_handleRegenerate_settle assms(4))
  ultimately show ?thesis by simp
qed

lemma worldB_regenerate:
  "fst (regeneratePhoto worldB fs pose) = Inl ''Failed to generate image: quota exceeded''"
  by (simp add: regeneratePhoto_def generateImage_def getAiClient_def getApiKey_def worldB_def
        exWorld_def failFirst_def generateImage_try_def generateImage_catch_def isCustomError_def
        startsWith_def)

lemma worldA_regenerate:
  "fst (regeneratePhoto worldA fs pose) = Inr ''data:image/png;base64,AAAA''"
  by (simp add: regeneratePhoto_def generateImage_def getAiClient_def getApiKey_def worldA_def
        exWorld_def generateImage_try_def generateImage_catch_def okResponse_def)

lemma worldA_key: "getAiClient worldA = Inr ''key''"
  by (simp add: getAiClient_def getApiKey_def worldA_def exWorld_def)

lemma worldB_key: "getAiClient worldB = Inr ''key''"
  by (simp add: getAiClient_def getApiKey_def worldB_def exWorld_def)

text \<open>
  A successful item with a finished video, regenerated in another style while the model
  refuses: the item keeps the old photo, is in error, and has lost its video.
\<close>

theorem regenerate_failure_not_rolled_back_witness:
  "map (\<lambda>x. (src x, photoStatus x, photoError x, imgStyle x, videoStatus x, videoSrc x))
       (images (fst (handleRegenerate worldB ''1000-0'' ''cinematic'' ''pose-a''
          (exBatch worldB (exItem success None (Some v_success) (Some ''data:video/mp4;base64,BBBB''))))))
   = [(''data:image/png;base64,AAAA'', error, Some ''Failed to generate image: quota exceeded'',
       ''cinematic'', Some v_idle, None)]"
proof -
  let ?img = "exItem success None (Some v_success) (Some ''data:video/mp4;base64,BBBB'')"
  let ?s = "exBatch worldB ?img"
  let ?s' = "fst (handleRegenerate worldB ''1000-0'' ''cinematic'' ''pose-a'' ?s)"
  have l: "lastUsedFormState ?s = Some exForm" by (simp add: exBatch_fields)
  have f: "find (\<lambda>img. imgId img = ''1000-0'') (images ?s) = Some ?img"
    by (simp add: exBatch_fields exItem_fields)
  have c: "\<not> (''cinematic'' = imgStyle ?img \<and> ''pose-a'' = prompt ?img)"
    by (simp add: exItem_fields)
  have imgs: "images ?s'
      = [regenSettle (fst (regeneratePhoto worldB (exForm\<lparr>style := ''cinematic''\<rparr>) ''pose-a''))
           (regenerateLoading ''cinematic'' ''pose-a'' ?img)]"
    by (simp add: handleRegenerate_images[OF l f c] updateById_def exBatch_fields exItem_fields)
  from regenerate_failure_not_rolled_back[OF l f c worldB_regenerate] show ?thesis
    unfolding imgs by (simp add: exItem_fields)
qed

text \<open>
  Claim C5, as amended. A regeneration request for an item whose photo state is already
  \<open>loading\<close> is not rejected. When the form data of the batch is there and the new
  style or prompt differs from the item's, the request runs like any other: the item is
  set to \<open>loading\<close> with the new style and prompt, one image request is sent (the key
  being present), and its outcome is written into the item; on success no error of any
  kind is reported. Only a request with the item's own style and prompt does nothing.
\<close>

theorem regenerate_while_loading_runs:
  assumes "lastUsedFormState s = Some lfs"
    and "find (\<lambda>img. imgId img = imageId) (images s) = Some img"
    and "photoStatus img = loading"
    and "getAiClient w = Inr key"
  shows "(newStyle = imgStyle img \<and> newPrompt = prompt img \<longrightarrow>
            handleRegenerate w imageId newStyle newPrompt s = (s, []))
       \<and> (\<not> (newStyle = imgStyle img \<and> newPrompt = prompt img) \<longrightarrow>
            find (\<lambda>x. imgId x = imageId) (images (handleRegenerate_start w imageId newStyle newPrompt s))
              = Some (regenerateLoading newStyle newPrompt img)
            \<and> imageRequests (snd (handleRegenerate w imageId newStyle newPrompt s))
              = [photoParts (lfs\<lparr>style := newStyle\<rparr>) newPrompt]
            \<and> find (\<lambda>x. imgId x = imageId) (images (fst (handleRegenerate w imageId newStyle newPrompt s)))
              = Some (regenSettle (fst (regeneratePhoto w (lfs\<lparr>style := newStyle\<rparr>) newPrompt))
                        (regenerateLoading newStyle newPrompt img))
            \<and> appError (fst (handleRegenerate w imageId newStyle newPrompt s))
              = (case fst (regeneratePhoto w (lfs\<lparr>style := newStyle\<rparr>) newPrompt) of
                   Inr url \<Rightarrow> appError s
                 | Inl m \<Rightarrow> Some (''Failed to regenerate image: '' @ m)))"
proof (intro conjI impI)
  assume "newStyle = imgStyle img \<and> newPrompt = prompt img"
  with assms(1,2) show "handleRegenerate w imageId newStyle newPrompt s = (s, [])"
    by (simp add: handleRegenerate_def)
next
  assume c: "\<not> (newStyle = imgStyle img \<and> newPrompt = prompt img)"
  show "find (\<lambda>x. imgId x = imageId) (images (handleRegenerate_start w imageId newStyle newPrompt s))
              = Some (regenerateLoading newStyle newPrompt img)"
    unfolding images_handleRegenerate_start by (rule find_updateById[OF assms(2)]) simp
  show "imageRequests (snd (handleRegenerate w imageId newStyle newPrompt s))
              = [photoParts (lfs\<lparr>style := newStyle\<rparr>) newPrompt]"
    by (simp add: handleRegenerate_run[OF assms(1,2) c] regeneratePhoto_requests[OF assms(4)])
  show "find (\<lambda>x. imgId x = imageId) (images (fst (handleRegenerate w imageId newStyle newPrompt s)))
              = Some (regenSettle (fst (regeneratePhoto w (lfs\<lparr>style := newStyle\<rparr>) newPrompt))
                        (regenerateLoading newStyle newPrompt img))"
    by (rule handleRegenerate_found[OF assms(1,2) c])
  show "appError (fst (handleRegenerate w imageId newStyle newPrompt s))
              = (case fst (regeneratePhoto w (lfs\<lparr>style := newStyle\<rparr>) newPrompt) of
                   Inr url \<Rightarrow> appError s
                 | Inl m \<Rightarrow> Some (''Failed to regenerate image: '' @ m))"
    by (simp add: handleRegenerate_run[OF assms(1,2) c] appError_handleRegenerate_settle
          appError_handleRegenerate_start split: sum.split)
qed

text \<open>
  An item that is still loading, regenerated in another style: one request is sent.
\<close>

theorem regenerate_while_loading_runs_witness:
  "length (imageRequests (snd (handleRegenerate worldA ''1000-0'' ''cinematic'' ''pose-a''
      (exBatch worldA (exItem loading None (Some v_idle) None))))) = 1
   \<and> appError (fst (handleRegenerate worldA ''1000-0'' ''cinematic'' ''pose-a''
      (exBatch worldA (exItem loading None (Some v_idle) None)))) = None"
proof -
  let ?img = "exItem loading None (Some v_idle) None"
  let ?s = "exBatch worldA ?img"
  have l: "lastUsedFormState ?s = Some exForm" by (simp add: exBatch_fields)
  have f: "find (\<lambda>img. imgId img = ''1000-0'') (images ?s) = Some ?img"
    by (simp add: exBatch_fields exItem_fields)
  have p: "photoStatus ?img = loading" by (simp add: exItem_fields)
  from regenerate_while_loading_runs[OF l f p worldA_key, of "''cinematic''" "''pose-a''"]
  show ?thesis
    by (simp add: exItem_fields exBatch_fields worldA_regenerate)
qed

text \<open>
  Claim C5 as stated fails: the item is \<open>loading\<close>, the request is neither rejected
  nor reported as a conflict; an image request is sent and the item ends in \<open>success\<close>.
\<close>

theorem regenerate_while_loading_counterexample:
  "photoStatus (exItem loading None (Some v_idle) None) = loading
   \<and> snd (handleRegenerate worldA ''1000-0'' ''cinematic'' ''pose-a''
        (exBatch worldA (exItem loading None (Some v_idle) None)))
      = [ImageRequest (photoParts (exForm\<lparr>style := ''cinematic''\<rparr>) ''pose-a'')]
   \<and> map photoStatus (images (fst (handleRegenerate worldA ''1000-0'' ''cinematic'' ''pose-a''
        (exBatch worldA (exItem loading None (Some v_idle) None))))) = [success]
   \<and> appError (fst (handleRegenerate worldA ''1000-0'' ''cinematic'' ''pose-a''
        (exBatch worldA (exItem loading None (Some v_idle) None)))) = None"
proof -
  let ?img = "exItem loading None (Some v_idle) None"
  let ?s = "exBatch worldA ?img"
  have l: "lastUsedFormState ?s = Some exForm" by (simp add: exBatch_fields)
  have f: "find (\<lambda>img. imgId img = ''1000-0'') (images ?s) = Some ?img"
    by (simp add: exBatch_fields exItem_fields)
  have c: "\<not> (''cinematic'' = imgStyle ?img \<and> ''pose-a'' = prompt ?img)"
    by (simp add: exItem_fields)
  have ev: "snd (regeneratePhoto worldA fs pose) = [ImageRequest (photoParts fs pose)]" for fs pose
    by (simp add: regeneratePhoto_def generateImage_def worldA_key)
  have imgs: "images (fst (handleRegenerate worldA ''1000-0'' ''cinematic'' ''pose-a'' ?s))
      = [regenSettle (Inr ''data:image/png;base64,AAAA'') (regenerateLoading ''cinematic'' ''pose-a'' ?img)]"
    by (simp add: handleRegenerate_images[OF l f c] updateById_def exBatch_fields exItem_fields
          worldA_regenerate)
  show ?thesis
    unfolding imgs
    by (simp add: handleRegenerate_run[OF l f c] ev appError_handleRegenerate_settle
          appError_handleRegenerate_start worldA_regenerate exBatch_fields exItem_fields
          regenSettle_def photoSucceeded_def regenerateLoading_def)
qed

section \<open>Video generation\<close>

lemma videoSubmits_append: "videoSubmits (a @ b) = videoSubmits a + videoSubmits b"
  by (induction a rule: videoSubmits.induct) simp_all

lemma pollVideo_submits:
  assumes "pollVideo w n opn tr = Some y"
  shows "videoSubmits (snd y) = videoSubmits tr"
proof (rule pollVideo.raw_induct[where P="\<lambda>w n opn tr y. videoSubmits (snd y) = videoSubmits tr",
         OF _ assms])
  fix pv :: "World \<Rightarrow> nat \<Rightarrow> VideoOperation \<Rightarrow> Event list
               \<Rightarrow> ((string + VideoOperation) \<times> Event list) option"
  fix w n opn tr y
  assume ih: "\<And>w n opn tr y. pv w n opn tr = Some y \<Longrightarrow> videoSubmits (snd y) = videoSubmits tr"
    and body: "(if opDone opn then Some (Inr opn, tr)
                else case pollReply w n of
                       Inl m \<Rightarrow> Some (Inl m, tr @ [Sleep 10000, VideoPoll])
                     | Inr operation' \<Rightarrow> pv w (Suc n) operation' (tr @ [Sleep 10000, VideoPoll])) = Some y"
  show "videoSubmits (snd y) = videoSubmits tr"
  proof (cases "opDone opn")
    case True
    with body show ?thesis by auto
  next
    case False
    show ?thesis
    proof (cases "pollReply w n")
      case (Inl m)
      with False body show ?thesis by (auto simp: videoSubmits_append)
    next
      case (Inr opn')
      with False body have "pv w (Suc n) opn' (tr @ [Sleep 10000, VideoPoll]) = Some y" by simp
      from ih[OF this] show ?thesis by (simp add: videoSubmits_append)
    qed
  qed
qed

lemma submitVideo_submits_le: "videoSubmits (snd (submitVideo w u r)) \<le> 1"
  by (auto simp: submitVideo_def split: sum.splits option.splits prod.splits)

lemma submitVideo_submits_one:
  assumes "getAiClient w = Inr key" "matchDataUrl w u \<noteq> None"
  shows "videoSubmits (snd (submitVideo w u r)) = 1"
proof -
  from assms(1) obtain k where "getApiKey w = Some k"
    by (cases "getApiKey w") (simp_all add: getAiClient_def)
  with assms show ?thesis
    by (auto simp: submitVideo_def split: sum.splits option.splits prod.splits)
qed

lemma downloadVideo_submits: "videoSubmits (snd (downloadVideo w k opn)) = 0"
  by (simp add: downloadVideo_def Let_def)

lemma generateVideoFromImage_submits:
  assumes "generateVideoFromImage w u r = Some (res, ev)"
  shows "videoSubmits ev = videoSubmits (snd (submitVideo w u r))"
proof (cases "submitVideo w u r")
  case (Pair sr sev)
  show ?thesis
  proof (cases sr)
    case (Inl m)
    with Pair assms show ?thesis by (simp add: generateVideoFromImage_def)
  next
    case (Inr ko)
    obtain k opn0 where ko: "ko = (k, opn0)" by (cases ko)
    show ?thesis
    proof (cases "pollVideo w 0 opn0 sev")
      case None
      with Pair Inr ko assms show ?thesis by (simp add: generateVideoFromImage_def)
    next
      case (Some y)
      obtain pr tr where y: "y = (pr, tr)" by (cases y)
      from pollVideo_submits[OF Some] y have tr: "videoSubmits tr = videoSubmits sev" by simp
      show ?thesis
      proof (cases pr)
        case (Inl m)
        with Pair Inr ko Some y assms tr show ?thesis by (simp add: generateVideoFromImage_def)
      next
        case (Inr opn)
        with Pair \<open>sr = Inr ko\<close> ko Some y assms tr downloadVideo_submits[of w k opn]
        show ?thesis
          by (auto simp: generateVideoFromImage_def videoSubmits_append split: prod.splits)
      qed
    qed
  qed
qed

section \<open>The video handler\<close>

lemma imgId_videoSettle [simp]: "imgId (videoSettle r x) = imgId x"
  by (cases r) (simp_all add: videoSettle_def)

lemma images_handleVideoAction_start:
  "images (handleVideoAction_start w i s) = updateById i videoLoading (images s)"
  by (simp add: handleVideoAction_start_def historyEffect_fields)

lemma images_handleVideoAction_settle:
  "images (handleVideoAction_settle w i img r s) = updateById i (videoSettle r) (images s)"
  by (cases r) (simp_all add: handleVideoAction_settle_def videoSettle_def historyEffect_fields Let_def)

lemma handleVideoAction_rejected:
  assumes "find (\<lambda>x. imgId x = imageId) (images s) = None
           \<or> (\<exists>img. find (\<lambda>x. imgId x = imageId) (images s) = Some img \<and> photoStatus img \<noteq> success)"
  shows "handleVideoAction w imageId ratio s = Some (s, [])"
  using assms by (auto simp: handleVideoAction_def)

lemma handleVideoAction_loading:
  assumes "find (\<lambda>x. imgId x = imageId) (images s) = Some img" "photoStatus img = success"
    and "videoStatus img = Some v_loading"
  shows "handleVideoAction w imageId ratio s = Some (s, [])"
  using assms by (simp add: handleVideoAction_def)

lemma handleVideoAction_view:
  assumes "find (\<lambda>x. imgId x = imageId) (images s) = Some img" "photoStatus img = success"
    and "videoStatus img = Some v_success" "videoSrc img = Some v" "v \<noteq> []"
  shows "handleVideoAction w imageId ratio s =
     Some (historyEffect w (s\<lparr>viewingVideo := Some \<lparr>viewVideoSrc = v, viewImageSrc = src img\<rparr>\<rparr>), [])"
  using assms by (simp add: handleVideoAction_def)

lemma handleVideoAction_run:
  assumes "find (\<lambda>x. imgId x = imageId) (images s) = Some img" "photoStatus img = success"
    and "videoStatus img = Some v_idle \<or> videoStatus img = Some v_error"
  shows "handleVideoAction w imageId ratio s =
     (case generateVideoFromImage w (src img) ratio of
        None \<Rightarrow> None
      | Some (res, ev) \<Rightarrow>
          Some (handleVideoAction_settle w imageId img res (handleVideoAction_start w imageId s), ev))"
  using assms by (auto simp: handleVideoAction_def Let_def)

text \<open>
  Claim C4, as amended. For an item whose photo is there (\<open>success\<close>), the request is
  dispatched on the video state and the stored video. While the video is \<open>loading\<close>
  the request does nothing and sends nothing. From \<open>success\<close> with a stored video it
  only opens that video in the viewer: the items are unchanged and no job is submitted.
  From \<open>idle\<close> or \<open>error\<close> the item enters \<open>loading\<close> with its video error cleared
  and \<open>generateVideoFromImage\<close> runs once on the item's photo: it submits at most one
  job, exactly one when the key is there and the photo is a data URL, and when it
  settles the item holds its outcome; the handler returns exactly when the generation
  does.
\<close>

theorem video_request_dispatch:
  assumes "find (\<lambda>x. imgId x = imageId) (images s) = Some img"
    and "photoStatus img = success"
  shows "(videoStatus img = Some v_loading \<longrightarrow> handleVideoAction w imageId ratio s = Some (s, []))
     \<and> (videoStatus img = Some v_success \<and> videoSrc img = Some v \<and> v \<noteq> [] \<longrightarrow>
          handleVideoAction w imageId ratio s
            = Some (historyEffect w (s\<lparr>viewingVideo := Some \<lparr>viewVideoSrc = v, viewImageSrc = src img\<rparr>\<rparr>), [])
          \<and> images (historyEffect w (s\<lparr>viewingVideo := Some \<lparr>viewVideoSrc = v, viewImageSrc = src img\<rparr>\<rparr>))
            = images s)
     \<and> (videoStatus img = Some v_idle \<or> videoStatus img = Some v_error \<longrightarrow>
          find (\<lambda>x. imgId x = imageId) (images (handleVideoAction_start w imageId s))
            = Some (img\<lparr>videoStatus := Some v_loading, videoError := None\<rparr>)
          \<and> videoSubmits (snd (submitVideo w (src img) ratio)) \<le> 1
          \<and> ((\<exists>key. getAiClient w = Inr key) \<and> matchDataUrl w (src img) \<noteq> None \<longrightarrow>
                videoSubmits (snd (submitVideo w (src img) ratio)) = 1)
          \<and> (handleVideoAction w imageId ratio s = None) = (generateVideoFromImage w (src img) ratio = None)
          \<and> (\<forall>s' ev. handleVideoAction w imageId ratio s = Some (s', ev) \<longrightarrow>
                videoSubmits ev = videoSubmits (snd (submitVideo w (src img) ratio))
                \<and> (\<exists>res. generateVideoFromImage w (src img) ratio = Some (res, ev)
                      \<and> find (\<lambda>x. imgId x = imageId) (images s')
                          = Some (videoSettle res (img\<lparr>videoStatus := Some v_loading, videoError := None\<rparr>)))))"
proof (intro conjI impI)
  assume "videoStatus img = Some v_loading"
  then show "handleVideoAction w imageId ratio s = Some (s, [])"
    by (rule handleVideoAction_loading[OF assms])
next
  assume v: "videoStatus img = Some v_success \<and> videoSrc img = Some v \<and> v \<noteq> []"
  then show "handleVideoAction w imageId ratio s
            = Some (historyEffect w (s\<lparr>viewingVideo := Some \<lparr>viewVideoSrc = v, viewImageSrc = src img\<rparr>\<rparr>), [])"
    using handleVideoAction_view[OF assms] by blast
  show "images (historyEffect w (s\<lparr>viewingVideo := Some \<lparr>viewVideoSrc = v, viewImageSrc = src img\<rparr>\<rparr>))
            = images s"
    by (simp add: historyEffect_fields)
next
  assume st: "videoStatus img = Some v_idle \<or> videoStatus img = Some v_error"
  note run = handleVideoAction_run[OF assms st]
  have start: "find (\<lambda>x. imgId x = imageId) (images (handleVideoAction_start w imageId s))
            = Some (videoLoading img)"
    unfolding images_handleVideoAction_start by (rule find_updateById[OF assms(1)]) simp
  then show "find (\<lambda>x. imgId x = imageId) (images (handleVideoAction_start w imageId s))
            = Some (img\<lparr>videoStatus := Some v_loading, videoError := None\<rparr>)"
    by (simp add: videoLoading_def)
  show "videoSubmits (snd (submitVideo w (src img) ratio)) \<le> 1"
    by (rule submitVideo_submits_le)
  show "videoSubmits (snd (submitVideo w (src img) ratio)) = 1"
    if "(\<exists>key. getAiClient w = Inr key) \<and> matchDataUrl w (src img) \<noteq> None"
    using that submitVideo_submits_one by blast
  show "(handleVideoAction w imageId ratio s = None) = (generateVideoFromImage w (src img) ratio = None)"
    unfolding run[of w ratio] by (auto split: option.splits)
  show "\<forall>s' ev. handleVideoAction w imageId ratio s = Some (s', ev) \<longrightarrow>
                videoSubmits ev = videoSubmits (snd (submitVideo w (src img) ratio))
                \<and> (\<exists>res. generateVideoFromImage w (src img) ratio = Some (res, ev)
                      \<and> find (\<lambda>x. imgId x = imageId) (images s')
                          = Some (videoSettle res (img\<lparr>videoStatus := Some v_loading, videoError := None\<rparr>)))"
  proof (intro allI impI)
    fix s' ev assume h: "handleVideoAction w imageId ratio s = Some (s', ev)"
    then obtain res where g: "generateVideoFromImage w (src img) ratio = Some (res, ev)"
      and s': "s' = handleVideoAction_settle w imageId img res (handleVideoAction_start w imageId s)"
      unfolding run[of w ratio] by (auto split: option.splits)
    have "find (\<lambda>x. imgId x = imageId) (images s') = Some (videoSettle res (videoLoading img))"
      unfolding s' images_handleVideoAction_settle by (rule find_updateById[OF start]) simp
    with g generateVideoFromImage_submits[OF g]
    show "videoSubmits ev = videoSubmits (snd (submitVideo w (src img) ratio))
                \<and> (\<exists>res. generateVideoFromImage w (src img) ratio = Some (res, ev)
                      \<and> find (\<lambda>x. imgId x = imageId) (images s')
                          = Some (videoSettle res (img\<lparr>videoStatus := Some v_loading, videoError := None\<rparr>)))"
      by (auto simp: videoLoading_def)
  qed
qed

section \<open>Scenario D and the requests that are not run\<close>

lemma worldB_getApiKey: "getApiKey worldB = Some ''key''"
  by (simp add: getApiKey_def worldB_def exWorld_def)

lemma worldB_submit:
  "submitVideo worldB u ''16:9'' =
     (Inr (''key'', \<lparr>opDone = False, videoUri = []\<rparr>), [VideoSubmit ''AAAA'' ''image/png'' ''16:9''])"
  by (simp add: submitVideo_def worldB_key worldB_getApiKey) (simp add: worldB_def exWorld_def)

lemma worldB_poll:
  "pollVideo worldB 0 \<lparr>opDone = False, videoUri = []\<rparr> tr =
     Some (Inr \<lparr>opDone = True, videoUri = ''https://video/1?alt=media''\<rparr>,
           tr @ [Sleep 10000, VideoPoll, Sleep 10000, VideoPoll, Sleep 10000, VideoPoll])"
proof -
  have r: "pollReply worldB n = Inr \<lparr>opDone = (2 \<le> n), videoUri = ''https://video/1?alt=media''\<rparr>" for n
    by (simp add: worldB_def exWorld_def)
  have "pollVideo worldB (Suc (Suc (Suc 0))) \<lparr>opDone = True, videoUri = ''https://video/1?alt=media''\<rparr> tr'
        = Some (Inr \<lparr>opDone = True, videoUri = ''https://video/1?alt=media''\<rparr>, tr')" for tr'
    by (subst pollVideo.simps) simp
  then have "pollVideo worldB (Suc (Suc 0)) \<lparr>opDone = False, videoUri = ''https://video/1?alt=media''\<rparr> tr'
        = Some (Inr \<lparr>opDone = True, videoUri = ''https://video/1?alt=media''\<rparr>, tr' @ [Sleep 10000, VideoPoll])" for tr'
    by (subst pollVideo.simps) (simp add: r)
  then have "pollVideo worldB (Suc 0) \<lparr>opDone = False, videoUri = ''https://video/1?alt=media''\<rparr> tr'
        = Some (Inr \<lparr>opDone = True, videoUri = ''https://video/1?alt=media''\<rparr>,
                tr' @ [Sleep 10000, VideoPoll, Sleep 10000, VideoPoll])" for tr'
    by (subst pollVideo.simps) (simp add: r)
  then show ?thesis
    by (subst pollVideo.simps) (simp add: r)
qed

lemma worldB_download:
  "downloadVideo worldB ''key'' \<lparr>opDone = True, videoUri = ''https://video/1?alt=media''\<rparr>
     = (Inr ''data:video/mp4;base64,BBBB'', [VideoFetch ''https://video/1?alt=media&key=key''])"
  by (simp add: downloadVideo_def Let_def worldB_def exWorld_def)

lemma worldB_video:
  "generateVideoFromImage worldB u ''16:9'' =
     Some (Inr ''data:video/mp4;base64,BBBB'',
           [VideoSubmit ''AAAA'' ''image/png'' ''16:9'', Sleep 10000, VideoPoll, Sleep 10000, VideoPoll,
            Sleep 10000, VideoPoll, VideoFetch ''https://video/1?alt=media&key=key''])"
  by (simp add: generateVideoFromImage_def worldB_submit worldB_poll worldB_download)

text \<open>
  Scenario D of the specification: a successful item with no video yet; the job is
  submitted once, the third poll finds it done, and the item ends with the video.
\<close>

theorem video_request_dispatch_witness:
  "\<exists>s' ev. handleVideoAction worldB ''1000-0'' ''16:9'' (exBatch worldB (exItem success None (Some v_idle) None))
              = Some (s', ev)
     \<and> videoSubmits ev = 1
     \<and> find (\<lambda>x. imgId x = ''1000-0'') (images s')
         = Some (exItem success None (Some v_success) (Some ''data:video/mp4;base64,BBBB''))"
proof -
  let ?img = "exItem success None (Some v_idle) None"
  let ?s = "exBatch worldB ?img"
  have f: "find (\<lambda>x. imgId x = ''1000-0'') (images ?s) = Some ?img"
    by (simp add: exBatch_fields exItem_fields)
  have p: "photoStatus ?img = success" by (simp add: exItem_fields)
  have i: "videoStatus ?img = Some v_idle \<or> videoStatus ?img = Some v_error" by (simp add: exItem_fields)
  note t = video_request_dispatch[OF f p, of worldB "''16:9''", THEN conjunct2, THEN conjunct2, rule_format, OF i]
  from t have "handleVideoAction worldB ''1000-0'' ''16:9'' ?s \<noteq> None"
    by (simp add: worldB_video)
  then obtain s' ev where h: "handleVideoAction worldB ''1000-0'' ''16:9'' ?s = Some (s', ev)"
    by (cases "handleVideoAction worldB ''1000-0'' ''16:9'' ?s") auto
  from t h have "videoSubmits ev = videoSubmits (snd (submitVideo worldB (src ?img) ''16:9''))
      \<and> (\<exists>res. generateVideoFromImage worldB (src ?img) ''16:9'' = Some (res, ev)
            \<and> find (\<lambda>x. imgId x = ''1000-0'') (images s')
                = Some (videoSettle res (?img\<lparr>videoStatus := Some v_loading, videoError := None\<rparr>)))"
    by blast
  then have "videoSubmits ev = 1
      \<and> find (\<lambda>x. imgId x = ''1000-0'') (images s')
          = Some (exItem success None (Some v_success) (Some ''data:video/mp4;base64,BBBB''))"
    by (auto simp: worldB_video worldB_submit videoSettle_def videoSucceeded_def exItem_def)
  with h show ?thesis by blast
qed

text \<open>
  Claim C4 as stated fails: on a successful item whose video is \<open>success\<close>, the request
  does not enter \<open>loading\<close> and submits no job; it opens the stored video.
\<close>

theorem video_request_from_success_counterexample:
  "videoStatus (exItem success None (Some v_success) (Some ''data:video/mp4;base64,BBBB'')) = Some v_success
   \<and> handleVideoAction worldB ''1000-0'' ''16:9''
        (exBatch worldB (exItem success None (Some v_success) (Some ''data:video/mp4;base64,BBBB'')))
      = Some ((exBatch worldB (exItem success None (Some v_success) (Some ''data:video/mp4;base64,BBBB'')))
                \<lparr>viewingVideo := Some \<lparr>viewVideoSrc = ''data:video/mp4;base64,BBBB'',
                                         viewImageSrc = ''data:image/png;base64,AAAA''\<rparr>\<rparr>,
              [])"
  by (simp add: handleVideoAction_def exBatch_fields exItem_fields historyEffect_settled)

text \<open>
  Claim C6, as amended. A video request for an item whose photo state is not \<open>success\<close>
  (or for an id that no item has) makes no call and changes nothing: the handler returns
  at once with the state it found, so the violation is not signalled to the caller.
\<close>

theorem video_request_without_photo_ignored:
  assumes "find (\<lambda>x. imgId x = imageId) (images s) = None
           \<or> (\<exists>img. find (\<lambda>x. imgId x = imageId) (images s) = Some img \<and> photoStatus img \<noteq> success)"
  shows "handleVideoAction w imageId ratio s = Some (s, [])"
  using assms by (rule handleVideoAction_rejected)

text \<open>An item whose photo is still loading: the request returns the state unchanged.\<close>

theorem video_request_without_photo_ignored_witness:
  "handleVideoAction worldB ''1000-0'' ''16:9'' (exBatch worldB (exItem loading None (Some v_idle) None))
     = Some (exBatch worldB (exItem loading None (Some v_idle) None), [])"
  by (rule video_request_without_photo_ignored) (simp add: exBatch_fields exItem_fields)

text \<open>
  Claim C6 as stated fails in its second half: on an item in \<open>error\<close> the request makes
  no call, and it reports nothing either: the state, with no error message, is returned
  as it was.
\<close>

theorem video_request_without_photo_counterexample:
  "photoStatus (exItem error (Some ''refused'') (Some v_idle) None) = error
   \<and> handleVideoAction worldB ''1000-0'' ''16:9'' (exBatch worldB (exItem error (Some ''refused'') (Some v_idle) None))
      = Some (exBatch worldB (exItem error (Some ''refused'') (Some v_idle) None), [])
   \<and> appError (exBatch worldB (exItem error (Some ''refused'') (Some v_idle) None)) = None"
  by (simp add: handleVideoAction_def exBatch_fields exItem_fields)

section \<open>The invariant of the photo fields\<close>

lemma photoInvariant_settled:
  assumes "i < length poses"
  shows "photoInvariant (settledItem w fs poses i (initialImages w fs poses ! i))"
proof (cases "fst (generateImage w i (photoParts fs (poses ! i)))")
  case (Inl m)
  then show ?thesis
    using assms by (simp add: settledItem_def photoFailed_def photoInvariant_def nth_initialImages)
next
  case (Inr url)
  then have "url \<noteq> []" by (rule generateImage_url)
  with Inr show ?thesis
    using assms by (simp add: settledItem_def photoSucceeded_def photoInvariant_def nth_initialImages)
qed

lemma handleGenerate_photoInvariant: "list_all photoInvariant (images (fst (handleGenerate w s)))"
proof (cases "fst (generatePoses w (productDescription (formState s)) (productImage (formState s))
                   (numberOfImages (formState s)))")
  case (Inl m)
  then show ?thesis by (simp add: handleGenerate_unplanned)
next
  case (Inr poses)
  show ?thesis
  proof (cases "poses = []")
    case True
    with Inr show ?thesis
      by (simp add: handleGenerate_unplanned[where m="''The AI failed to generate any poses. Try adjusting the description.''"])
  next
    case False
    show ?thesis
      unfolding handleGenerate_planned[OF Inr False]
      by (simp add: list_all_length length_mapi length_initialImages nth_mapi photoInvariant_settled)
  qed
qed

lemma photoPayload_regenerate:
  assumes "fst (regeneratePhoto w fs pose) = r" "photoPayload x"
  shows "photoPayload (regenSettle r (regenerateLoading a b x))"
proof (cases r)
  case (Inl m)
  then show ?thesis
    by (simp add: regenSettle_def photoFailed_def regenerateLoading_def photoPayload_def)
next
  case (Inr url)
  with assms(1) have "url \<noteq> []"
    unfolding regeneratePhoto_def by (auto dest: generateImage_url)
  with Inr show ?thesis
    by (simp add: regenSettle_def photoSucceeded_def regenerateLoading_def photoPayload_def)
qed

lemma handleRegenerate_photoPayload:
  assumes "list_all photoPayload (images s)"
  shows "list_all photoPayload (images (fst (handleRegenerate w i a b s)))"
proof (cases "lastUsedFormState s")
  case None
  with assms show ?thesis by (simp add: handleRegenerate_def historyEffect_fields)
next
  case (Some lfs)
  show ?thesis
  proof (cases "find (\<lambda>img. imgId img = i) (images s)")
    case None
    with Some assms show ?thesis by (simp add: handleRegenerate_def)
  next
    case found: (Some img)
    show ?thesis
    proof (cases "a = imgStyle img \<and> b = prompt img")
      case True
      with Some found assms show ?thesis by (simp add: handleRegenerate_def)
    next
      case False
      show ?thesis
        unfolding handleRegenerate_images[OF Some found False]
        by (rule list_all_updateById[OF assms]) (rule photoPayload_regenerate[OF refl])
    qed
  qed
qed

lemma handleRegenerate_start_photoPayload:
  assumes "list_all photoPayload (images s)"
  shows "list_all photoPayload (images (handleRegenerate_start w i a b s))"
  unfolding images_handleRegenerate_start
  by (rule list_all_updateById[OF assms]) (simp add: regenerateLoading_def photoPayload_def)

lemma video_keeps_photo:
  "photoInvariant (videoLoading x) = photoInvariant x"
  "photoInvariant (videoSettle r x) = photoInvariant x"
  "photoPayload (videoLoading x) = photoPayload x"
  "photoPayload (videoSettle r x) = photoPayload x"
  by (cases r; simp add: photoInvariant_def photoPayload_def videoLoading_def videoSettle_def
        videoSucceeded_def videoFailed_def)+

lemma handleVideoAction_images:
  assumes "handleVideoAction w i r s = Some (s', ev)"
  shows "images s' = images s
       \<or> (\<exists>res. images s' = updateById i (videoSettle res) (updateById i videoLoading (images s)))"
  using assms
  by (auto simp: handleVideoAction_def Let_def historyEffect_fields images_handleVideoAction_settle
        images_handleVideoAction_start split: option.splits if_splits prod.splits)

lemma handleVideoAction_keeps:
  assumes "handleVideoAction w i r s = Some (s', ev)"
    and "list_all P (images s)"
    and "\<And>x. P (videoLoading x) = P x" "\<And>res x. P (videoSettle res x) = P x"
  shows "list_all P (images s')"
  using handleVideoAction_images[OF assms(1)] assms(2-4)
  by (auto intro!: list_all_updateById)

text \<open>
  Claim C8, as amended. A batch leaves every item with the invariant of the
  specification: the photo result is present exactly in state \<open>success\<close>, the photo
  error exactly in state \<open>error\<close>, and so never both. Video generation keeps it.
  Regeneration keeps only its half \<open>photoPayload\<close>: an item in \<open>success\<close> has a photo
  result and an item in \<open>error\<close> has a photo error; this half holds while the handler
  awaits the new image and after it has settled.
\<close>

theorem photo_fields_invariant:
  "list_all photoInvariant (images (fst (handleGenerate w s)))
   \<and> (photoInvariant x \<longrightarrow> photoPayload x \<and> \<not> (src x \<noteq> [] \<and> photoError x \<noteq> None))
   \<and> (list_all photoPayload (images s) \<longrightarrow>
         list_all photoPayload (images (handleRegenerate_start w imageId newStyle newPrompt s))
         \<and> list_all photoPayload (images (fst (handleRegenerate w imageId newStyle newPrompt s))))
   \<and> (list_all photoInvariant (images s) \<longrightarrow>
         list_all photoInvariant (images (handleVideoAction_start w imageId s)))
   \<and> (\<forall>s' ev. handleVideoAction w imageId ratio s = Some (s', ev) \<longrightarrow>
         (list_all photoInvariant (images s) \<longrightarrow> list_all photoInvariant (images s'))
         \<and> (list_all photoPayload (images s) \<longrightarrow> list_all photoPayload (images s')))"
proof (intro conjI impI allI)
  show "list_all photoInvariant (images (fst (handleGenerate w s)))"
    by (rule handleGenerate_photoInvariant)
  show "photoPayload x" if "photoInvariant x"
    using that by (auto simp: photoInvariant_def photoPayload_def)
  show "\<not> (src x \<noteq> [] \<and> photoError x \<noteq> None)" if "photoInvariant x"
    using that by (auto simp: photoInvariant_def)
  show "list_all photoPayload (images (handleRegenerate_start w imageId newStyle newPrompt s))"
    if "list_all photoPayload (images s)"
    using that by (rule handleRegenerate_start_photoPayload)
  show "list_all photoPayload (images (fst (handleRegenerate w imageId newStyle newPrompt s)))"
    if "list_all photoPayload (images s)"
    using that by (rule handleRegenerate_photoPayload)
  show "list_all photoInvariant (images (handleVideoAction_start w imageId s))"
    if "list_all photoInvariant (images s)"
    unfolding images_handleVideoAction_start
    by (rule list_all_updateById[OF that]) (simp add: video_keeps_photo)
  show "list_all photoInvariant (images s')"
    if "handleVideoAction w imageId ratio s = Some (s', ev)" "list_all photoInvariant (images s)" for s' ev
    using that by (rule handleVideoAction_keeps[where P=photoInvariant]) (simp_all add: video_keeps_photo)
  show "list_all photoPayload (images s')"
    if "handleVideoAction w imageId ratio s = Some (s', ev)" "list_all photoPayload (images s)" for s' ev
    using that by (rule handleVideoAction_keeps[where P=photoPayload]) (simp_all add: video_keeps_photo)
qed

text \<open>
  A successful item regenerated while the model refuses: it is in \<open>error\<close> with an
  error, so \<open>photoPayload\<close> still holds.
\<close>

theorem photo_fields_invariant_witness:
  "list_all photoPayload (images (exBatch worldB (exItem success None (Some v_idle) None)))
   \<and> list_all photoPayload (images (fst (handleRegenerate worldB ''1000-0'' ''cinematic'' ''pose-a''
        (exBatch worldB (exItem success None (Some v_idle) None)))))"
proof -
  have a: "list_all photoPayload (images (exBatch worldB (exItem success None (Some v_idle) None)))"
    by (simp add: exBatch_fields exItem_fields photoPayload_def)
  with photo_fields_invariant[where w=worldB
         and s="exBatch worldB (exItem success None (Some v_idle) None)"
         and x="exItem success None (Some v_idle) None"
         and imageId="''1000-0''" and newStyle="''cinematic''" and newPrompt="''pose-a''"
         and ratio="''16:9''"]
  show ?thesis by blast
qed

text \<open>
  Claim C8 as stated fails: the same regeneration starts from an item that satisfies the
  invariant and ends with an item in \<open>error\<close> that holds both the previous photo result
  and a photo error.
\<close>

theorem photo_invariant_broken_by_regenerate_counterexample:
  "photoInvariant (exItem success None (Some v_idle) None)
   \<and> length (images (fst (handleRegenerate worldB ''1000-0'' ''cinematic'' ''pose-a''
           (exBatch worldB (exItem success None (Some v_idle) None))))) = 1
   \<and> photoStatus (hd (images (fst (handleRegenerate worldB ''1000-0'' ''cinematic'' ''pose-a''
           (exBatch worldB (exItem success None (Some v_idle) None)))))) = error
   \<and> src (hd (images (fst (handleRegenerate worldB ''1000-0'' ''cinematic'' ''pose-a''
           (exBatch worldB (exItem success None (Some v_idle) None)))))) = ''data:image/png;base64,AAAA''
   \<and> photoError (hd (images (fst (handleRegenerate worldB ''1000-0'' ''cinematic'' ''pose-a''
           (exBatch worldB (exItem success None (Some v_idle) None))))))
       = Some ''Failed to generate image: quota exceeded''
   \<and> \<not> photoInvariant (hd (images (fst (handleRegenerate worldB ''1000-0'' ''cinematic'' ''pose-a''
           (exBatch worldB (exItem success None (Some v_idle) None))))))"
proof -
  let ?img = "exItem success None (Some v_idle) None"
  let ?s = "exBatch worldB ?img"
  have l: "lastUsedFormState ?s = Some exForm" by (simp add: exBatch_fields)
  have f: "find (\<lambda>img. imgId img = ''1000-0'') (images ?s) = Some ?img"
    by (simp add: exBatch_fields exItem_fields)
  have c: "\<not> (''cinematic'' = imgStyle ?img \<and> ''pose-a'' = prompt ?img)"
    by (simp add: exItem_fields)
  have imgs: "images (fst (handleRegenerate worldB ''1000-0'' ''cinematic'' ''pose-a'' ?s))
      = [regenSettle (Inl ''Failed to generate image: quota exceeded'')
           (regenerateLoading ''cinematic'' ''pose-a'' ?img)]"
    by (simp add: handleRegenerate_images[OF l f c] updateById_def exBatch_fields exItem_fields
          worldB_regenerate)
  show ?thesis
    unfolding imgs
    by (simp add: regenSettle_def photoFailed_def regenerateLoading_def exItem_def photoInvariant_def)
qed

end
